theory Spec2Isabelle
  imports Main
begin

section \<open>Platform: what the JavaScript runtime and the operating system provide\<close>

text \<open>
  The program is a Node.js application.  Library functions of the runtime that the
  program calls but does not define (\<^verbatim>\<open>path.extname\<close>, \<^verbatim>\<open>path.join\<close>,
  \<^verbatim>\<open>String.prototype.toLowerCase\<close>, \<^verbatim>\<open>trim\<close>, \<^verbatim>\<open>localeCompare\<close>, \<^verbatim>\<open>parseInt\<close>)
  are parameters of the model, collected in the record \<open>platform\<close>; every theorem
  holds for all of them unless it states a hypothesis.  \<open>parseInt\<close> returns \<open>None\<close>
  for \<^verbatim>\<open>NaN\<close>.
\<close>

record platform =
  extname :: "string \<Rightarrow> string"
  toLowerCase :: "string \<Rightarrow> string"
  path_join :: "string \<Rightarrow> string \<Rightarrow> string"
  localeCompare :: "string \<Rightarrow> string \<Rightarrow> int"
  parseInt :: "string \<Rightarrow> int option"
  trim :: "string \<Rightarrow> string"

text \<open>
  The file system as one operation sees it.  \<^verbatim>\<open>fs.readdir(dir, {withFileTypes: true})\<close>
  gives the directory entries or throws (\<open>None\<close>); \<^verbatim>\<open>fs.stat(path)\<close> gives the
  file's stats or throws (\<open>None\<close>).
\<close>

record dirent =
  d_name :: string
  d_isFile :: bool

record stats =
  st_isFile :: bool
  st_size :: nat
  st_mtime :: int

record filesystem =
  readdir :: "string \<Rightarrow> dirent list option"
  stat :: "string \<Rightarrow> stats option"

text \<open>
  A thrown \<^verbatim>\<open>Error\<close> is the left injection, carrying the error's message; a normal
  return is the right injection.
\<close>

type_synonym 'a res = "string + 'a"

text \<open>JavaScript's remainder \<^verbatim>\<open>a % b\<close> on integers: the sign follows the dividend.\<close>

definition js_rem :: "int \<Rightarrow> int \<Rightarrow> int" where
  "js_rem a b = (if a < 0 then - ((- a) mod \<bar>b\<bar>) else a mod \<bar>b\<bar>)"

text \<open>Array indexing \<^verbatim>\<open>xs[i]\<close>: \<^verbatim>\<open>undefined\<close> (\<open>None\<close>) out of range.\<close>

definition js_index :: "'a list \<Rightarrow> int \<Rightarrow> 'a option" where
  "js_index xs i = (if 0 \<le> i \<and> i < int (length xs) then Some (xs ! nat i) else None)"

text \<open>
  \<^verbatim>\<open>Array.prototype.findIndex\<close>: the index of the first element satisfying the
  predicate, or \<open>-1\<close>.
\<close>

fun findIndex :: "('a \<Rightarrow> bool) \<Rightarrow> 'a list \<Rightarrow> int" where
  "findIndex p [] = - 1"
| "findIndex p (x # xs) =
     (if p x then 0 else (let i = findIndex p xs in if i < 0 then - 1 else i + 1))"

text \<open>
  \<^verbatim>\<open>Array.prototype.sort(cmp)\<close> is a stable sort.  It is modelled by the stable
  insertion sort: an element is placed before the first element of the sorted rest that
  it does not compare greater than.
\<close>

fun insert_by :: "('a \<Rightarrow> 'a \<Rightarrow> int) \<Rightarrow> 'a \<Rightarrow> 'a list \<Rightarrow> 'a list" where
  "insert_by cmp x [] = [x]"
| "insert_by cmp x (y # ys) = (if cmp x y \<le> 0 then x # y # ys else y # insert_by cmp x ys)"

definition sort_by :: "('a \<Rightarrow> 'a \<Rightarrow> int) \<Rightarrow> 'a list \<Rightarrow> 'a list" where
  "sort_by cmp xs = foldr (insert_by cmp) xs []"


section \<open>File manager (src/managers/file-manager.js)\<close>

record presentation_file =
  f_name :: string
  f_path :: string
  f_extension :: string
  f_size :: nat
  f_modified :: int
  f_type :: string

text \<open>
  The fields of \<^verbatim>\<open>FileManager\<close>.  \<open>currentFolder\<close> is \<open>None\<close> for \<^verbatim>\<open>null\<close>;
  \<open>watcher\<close> holds the folder the chokidar watcher observes, \<open>None\<close> when there is
  no watcher.
\<close>

record file_manager =
  currentFolder :: "string option"
  files :: "presentation_file list"
  currentFileIndex :: int
  watcher :: "string option"
  supportedExtensions :: "string list"

definition FileManager_new :: file_manager where
  "FileManager_new =
     \<lparr>currentFolder = None, files = [], currentFileIndex = - 1, watcher = None,
      supportedExtensions = [''.key'', ''.pptx'', ''.ppt'']\<rparr>"

definition getFileType :: "string \<Rightarrow> string" where
  "getFileType ext =
     (if ext = ''.key'' then ''keynote''
      else if ext = ''.pptx'' \<or> ext = ''.ppt'' then ''powerpoint''
      else ''unknown'')"

text \<open>
  The loop of \<^verbatim>\<open>scanFiles\<close> over the directory entries.  A \<^verbatim>\<open>fs.stat\<close> that
  throws aborts the whole loop (\<open>None\<close>).
\<close>

fun scan_entries ::
  "platform \<Rightarrow> filesystem \<Rightarrow> string list \<Rightarrow> string \<Rightarrow> dirent list
     \<Rightarrow> presentation_file list \<Rightarrow> presentation_file list option" where
  "scan_entries P F exts folder [] acc = Some acc"
| "scan_entries P F exts folder (entry # entries) acc =
     (if d_isFile entry then
        (let ext = toLowerCase P (extname P (d_name entry)) in
         if ext \<in> set exts then
           (let fullPath = path_join P folder (d_name entry) in
            case stat F fullPath of
              None \<Rightarrow> None
            | Some st \<Rightarrow>
                scan_entries P F exts folder entries
                  (acc @ [\<lparr>f_name = d_name entry, f_path = fullPath, f_extension = ext,
                           f_size = st_size st, f_modified = st_mtime st,
                           f_type = getFileType ext\<rparr>]))
         else scan_entries P F exts folder entries acc)
      else scan_entries P F exts folder entries acc)"

text \<open>\<^verbatim>\<open>!this.currentFolder\<close>: \<^verbatim>\<open>null\<close> and the empty string are falsy.\<close>

definition folder_set :: "string option \<Rightarrow> bool" where
  "folder_set f = (case f of None \<Rightarrow> False | Some s \<Rightarrow> s \<noteq> [])"

definition scanFiles :: "platform \<Rightarrow> filesystem \<Rightarrow> file_manager \<Rightarrow> file_manager" where
  "scanFiles P F fm =
     (case currentFolder fm of
        None \<Rightarrow> fm\<lparr>files := []\<rparr>
      | Some folder \<Rightarrow>
          if folder = [] then fm\<lparr>files := []\<rparr>
          else
            (case readdir F folder of
               None \<Rightarrow> fm\<lparr>files := []\<rparr>
             | Some entries \<Rightarrow>
                 (case scan_entries P F (supportedExtensions fm) folder entries [] of
                    None \<Rightarrow> fm\<lparr>files := []\<rparr>
                  | Some presentationFiles \<Rightarrow>
                      fm\<lparr>files :=
                           sort_by (\<lambda>a b. localeCompare P (f_name a) (f_name b))
                             presentationFiles\<rparr>)))"

definition setupWatcher :: "file_manager \<Rightarrow> file_manager" where
  "setupWatcher fm =
     (if \<not> folder_set (currentFolder fm) then fm else fm\<lparr>watcher := currentFolder fm\<rparr>)"

text \<open>
  \<^verbatim>\<open>setFolder\<close>: the previous watcher is closed (which leaves the field as it is until
  \<^verbatim>\<open>setupWatcher\<close> overwrites it), the folder is installed, the cursor is reset, the
  folder is scanned and a new watcher is set up.
\<close>

definition setFolder :: "platform \<Rightarrow> filesystem \<Rightarrow> string \<Rightarrow> file_manager \<Rightarrow> file_manager" where
  "setFolder P F folderPath fm =
     setupWatcher (scanFiles P F (fm\<lparr>currentFolder := Some folderPath, currentFileIndex := - 1\<rparr>))"

definition getFiles :: "file_manager \<Rightarrow> presentation_file list" where
  "getFiles fm = files fm"

definition getCurrentFileIndex :: "file_manager \<Rightarrow> int" where
  "getCurrentFileIndex fm = currentFileIndex fm"

definition setCurrentFile :: "string \<Rightarrow> file_manager \<Rightarrow> presentation_file option \<times> file_manager" where
  "setCurrentFile filePath fm =
     (let index = findIndex (\<lambda>file. f_path file = filePath) (files fm) in
      if index \<ge> 0 then (js_index (files fm) index, fm\<lparr>currentFileIndex := index\<rparr>)
      else (None, fm))"

definition nextFile :: "file_manager \<Rightarrow> presentation_file option \<times> file_manager" where
  "nextFile fm =
     (if length (files fm) = 0 then (None, fm)
      else
        (let fm' = fm\<lparr>currentFileIndex :=
                        js_rem (currentFileIndex fm + 1) (int (length (files fm)))\<rparr>
         in (js_index (files fm') (currentFileIndex fm'), fm')))"

definition prevFile :: "file_manager \<Rightarrow> presentation_file option \<times> file_manager" where
  "prevFile fm =
     (if length (files fm) = 0 then (None, fm)
      else
        (let fm' = fm\<lparr>currentFileIndex :=
                        (if currentFileIndex fm \<le> 0 then int (length (files fm)) - 1
                         else currentFileIndex fm - 1)\<rparr>
         in (js_index (files fm') (currentFileIndex fm'), fm')))"

definition getFileByIndex :: "int \<Rightarrow> file_manager \<Rightarrow> presentation_file option \<times> file_manager" where
  "getFileByIndex index fm =
     (if index \<ge> 0 \<and> index < int (length (files fm))
      then (js_index (files fm) index, fm\<lparr>currentFileIndex := index\<rparr>)
      else (None, fm))"

definition validateFile :: "filesystem \<Rightarrow> string \<Rightarrow> bool" where
  "validateFile F filePath = (case stat F filePath of None \<Rightarrow> False | Some st \<Rightarrow> st_isFile st)"

definition clearFolder :: "file_manager \<Rightarrow> file_manager" where
  "clearFolder fm = fm\<lparr>currentFolder := None, files := [], currentFileIndex := - 1, watcher := None\<rparr>"

text \<open>Calling \<^verbatim>\<open>nextFile\<close> \<open>n\<close> times in a row.\<close>

fun nextFile_times :: "nat \<Rightarrow> file_manager \<Rightarrow> file_manager" where
  "nextFile_times 0 fm = fm"
| "nextFile_times (Suc n) fm = nextFile_times n (snd (nextFile fm))"


section \<open>Driver capability interface\<close>

text \<open>
  The presentation manager calls its drivers only through their methods, so it is
  modelled over any implementation of them.  The world \<open>'w\<close> is everything outside the
  manager that a driver call can read or change: the driver objects' own fields and the
  automated applications.  A method returns normally or throws, and yields the next
  world.  \<open>drv_getCurrentSlideInfo\<close> is \<open>None\<close> for an object without such a method
  (\<^verbatim>\<open>typeof driver.getCurrentSlideInfo !== 'function'\<close>).  Of the object a driver's
  \<^verbatim>\<open>openFile\<close> returns, the manager and the server read \<^verbatim>\<open>success\<close> and
  \<^verbatim>\<open>message\<close> only.
\<close>

record open_result =
  success :: bool
  message :: string

record slide_info =
  si_currentSlide :: int
  si_totalSlides :: int

record 'w driver =
  drv_openFile :: "string \<Rightarrow> 'w \<Rightarrow> open_result res \<times> 'w"
  drv_startPresentation :: "'w \<Rightarrow> unit res \<times> 'w"
  drv_stopPresentation :: "'w \<Rightarrow> unit res \<times> 'w"
  drv_closePresentation :: "'w \<Rightarrow> unit res \<times> 'w"
  drv_nextSlide :: "'w \<Rightarrow> unit res \<times> 'w"
  drv_prevSlide :: "'w \<Rightarrow> unit res \<times> 'w"
  drv_getCurrentSlideInfo :: "('w \<Rightarrow> slide_info res \<times> 'w) option"
  drv_getSlideNotes :: "int \<Rightarrow> 'w \<Rightarrow> string res \<times> 'w"

text \<open>
  The two driver objects a manager owns, \<^verbatim>\<open>this.keynoteDriver\<close> and
  \<^verbatim>\<open>this.powerpointDriver\<close>; \<^verbatim>\<open>this.currentDriver\<close> is \<^verbatim>\<open>null\<close> or refers to one
  of them.
\<close>

datatype driver_ref = KeynoteRef | PowerPointRef


section \<open>The AppleScript drivers (src/drivers)\<close>

text \<open>
  The AppleScript texts the drivers run, by name.  \<open>KN_open p\<close> and \<open>PP_open p\<close> embed
  the file path, \<open>KN_notes n\<close> the slide number.
\<close>

datatype script =
    KN_open string | KN_start | KN_stop | KN_close | KN_next | KN_prev
  | KN_count | KN_current | KN_notes int
  | PP_open string | PP_start | PP_stop | PP_close | PP_next | PP_prev
  | PP_total | PP_current | PP_notes

text \<open>
  The world of the AppleScript drivers: the fields of the two driver objects, and the
  state \<open>apps\<close> of the automated applications.
\<close>

record 'a automation =
  kn_currentDocument :: "string option"
  pp_currentPresentation :: "string option"
  pp_addinConnected :: bool
  apps :: 'a

text \<open>
  \<^verbatim>\<open>executeAppleScript\<close> runs \<^verbatim>\<open>osascript\<close>, given as the parameter \<open>X\<close>: it returns
  the script's output, or throws an \<^verbatim>\<open>Error\<close> whose message is the cleaned-up error
  text.
\<close>

type_synonym 'a osascript = "script \<Rightarrow> 'a \<Rightarrow> (string + string) \<times> 'a"

definition executeAppleScript ::
  "'a osascript \<Rightarrow> script \<Rightarrow> 'a automation \<Rightarrow> string res \<times> 'a automation" where
  "executeAppleScript X sc w = (case X sc (apps w) of (r, a) \<Rightarrow> (r, w\<lparr>apps := a\<rparr>))"

text \<open>\<^verbatim>\<open>parseInt(s.trim()) || d\<close>: \<^verbatim>\<open>NaN\<close> and \<open>0\<close> are falsy.\<close>

definition parseInt_or :: "platform \<Rightarrow> string \<Rightarrow> int \<Rightarrow> int" where
  "parseInt_or P s d =
     (case parseInt P (trim P s) of None \<Rightarrow> d | Some n \<Rightarrow> if n = 0 then d else n)"

text \<open>A command script whose output is dropped; a failure is rethrown with a prefix.\<close>

definition run_command ::
  "'a osascript \<Rightarrow> script \<Rightarrow> string \<Rightarrow> 'a automation \<Rightarrow> unit res \<times> 'a automation" where
  "run_command X sc prefix w =
     (case executeAppleScript X sc w of
        (Inr _, w1) \<Rightarrow> (Inr (), w1)
      | (Inl msg, w1) \<Rightarrow> (Inl (prefix @ msg), w1))"

definition PowerPointDriver_openFile ::
  "platform \<Rightarrow> 'a osascript \<Rightarrow> string \<Rightarrow> 'a automation \<Rightarrow> open_result res \<times> 'a automation" where
  "PowerPointDriver_openFile P X filePath w =
     (case executeAppleScript X (PP_open filePath) w of
        (Inr result, w1) \<Rightarrow>
          (Inr \<lparr>success = True, message = ''Opened '' @ trim P result @ '' in PowerPoint''\<rparr>,
           w1\<lparr>pp_currentPresentation := Some (trim P result)\<rparr>)
      | (Inl msg, w1) \<Rightarrow>
          (Inr \<lparr>success = False, message = ''Failed to open file: '' @ msg\<rparr>, w1))"

definition PowerPointDriver_getCurrentSlideInfo ::
  "platform \<Rightarrow> 'a osascript \<Rightarrow> 'a automation \<Rightarrow> slide_info res \<times> 'a automation" where
  "PowerPointDriver_getCurrentSlideInfo P X w =
     (case executeAppleScript X PP_total w of
        (Inl msg, w1) \<Rightarrow> (Inr \<lparr>si_currentSlide = 1, si_totalSlides = 0\<rparr>, w1)
      | (Inr cnt, w1) \<Rightarrow>
          (case executeAppleScript X PP_current w1 of
             (Inl msg, w2) \<Rightarrow>
               (Inr \<lparr>si_currentSlide = 1, si_totalSlides = parseInt_or P cnt 0\<rparr>, w2)
           | (Inr cur, w2) \<Rightarrow>
               (Inr \<lparr>si_currentSlide = parseInt_or P cur 1,
                     si_totalSlides = parseInt_or P cnt 0\<rparr>, w2)))"

definition PowerPointDriver_getSlideNotes ::
  "platform \<Rightarrow> 'a osascript \<Rightarrow> int \<Rightarrow> 'a automation \<Rightarrow> string res \<times> 'a automation" where
  "PowerPointDriver_getSlideNotes P X slideNumber w =
     (case executeAppleScript X PP_notes w of
        (Inr result, w1) \<Rightarrow> (Inr (trim P result), w1)
      | (Inl msg, w1) \<Rightarrow> (Inr [], w1))"

definition PowerPointDriver :: "platform \<Rightarrow> 'a osascript \<Rightarrow> 'a automation driver" where
  "PowerPointDriver P X =
     \<lparr>drv_openFile = PowerPointDriver_openFile P X,
      drv_startPresentation = run_command X PP_start ''Failed to start presentation: '',
      drv_stopPresentation = run_command X PP_stop ''Failed to stop presentation: '',
      drv_closePresentation = run_command X PP_close ''Failed to close presentation: '',
      drv_nextSlide = run_command X PP_next ''Failed to go to next slide: '',
      drv_prevSlide = run_command X PP_prev ''Failed to go to previous slide: '',
      drv_getCurrentSlideInfo = Some (PowerPointDriver_getCurrentSlideInfo P X),
      drv_getSlideNotes = PowerPointDriver_getSlideNotes P X\<rparr>"

definition KeynoteDriver_openFile ::
  "platform \<Rightarrow> 'a osascript \<Rightarrow> string \<Rightarrow> 'a automation \<Rightarrow> open_result res \<times> 'a automation" where
  "KeynoteDriver_openFile P X filePath w =
     (case executeAppleScript X (KN_open filePath) w of
        (Inr result, w1) \<Rightarrow>
          (Inr \<lparr>success = True, message = ''Opened '' @ trim P result @ '' in Keynote''\<rparr>,
           w1\<lparr>kn_currentDocument := Some (trim P result)\<rparr>)
      | (Inl msg, w1) \<Rightarrow>
          (Inr \<lparr>success = False, message = ''Failed to open file: '' @ msg\<rparr>, w1))"

definition KeynoteDriver_getCurrentSlideInfo ::
  "platform \<Rightarrow> 'a osascript \<Rightarrow> 'a automation \<Rightarrow> slide_info res \<times> 'a automation" where
  "KeynoteDriver_getCurrentSlideInfo P X w =
     (case executeAppleScript X KN_count w of
        (Inl msg, w1) \<Rightarrow> (Inr \<lparr>si_currentSlide = 1, si_totalSlides = 0\<rparr>, w1)
      | (Inr cnt, w1) \<Rightarrow>
          (case executeAppleScript X KN_current w1 of
             (Inl msg, w2) \<Rightarrow>
               (Inr \<lparr>si_currentSlide = 1, si_totalSlides = parseInt_or P cnt 0\<rparr>, w2)
           | (Inr cur, w2) \<Rightarrow>
               (Inr \<lparr>si_currentSlide = parseInt_or P cur 1,
                     si_totalSlides = parseInt_or P cnt 0\<rparr>, w2)))"

definition KeynoteDriver_getSlideNotes ::
  "platform \<Rightarrow> 'a osascript \<Rightarrow> int \<Rightarrow> 'a automation \<Rightarrow> string res \<times> 'a automation" where
  "KeynoteDriver_getSlideNotes P X slideNumber w =
     (case executeAppleScript X (KN_notes slideNumber) w of
        (Inr result, w1) \<Rightarrow> (Inr (trim P result), w1)
      | (Inl msg, w1) \<Rightarrow> (Inr [], w1))"

definition KeynoteDriver :: "platform \<Rightarrow> 'a osascript \<Rightarrow> 'a automation driver" where
  "KeynoteDriver P X =
     \<lparr>drv_openFile = KeynoteDriver_openFile P X,
      drv_startPresentation = run_command X KN_start ''Failed to start presentation: '',
      drv_stopPresentation = run_command X KN_stop ''Failed to stop presentation: '',
      drv_closePresentation = run_command X KN_close ''Failed to close presentation: '',
      drv_nextSlide = run_command X KN_next ''Failed to go to next slide: '',
      drv_prevSlide = run_command X KN_prev ''Failed to go to previous slide: '',
      drv_getCurrentSlideInfo = Some (KeynoteDriver_getCurrentSlideInfo P X),
      drv_getSlideNotes = KeynoteDriver_getSlideNotes P X\<rparr>"

text \<open>The drivers a \<^verbatim>\<open>PresentationManager\<close> constructs.\<close>

definition applescript_drivers ::
  "platform \<Rightarrow> 'a osascript \<Rightarrow> driver_ref \<Rightarrow> 'a automation driver" where
  "applescript_drivers P X r =
     (case r of KeynoteRef \<Rightarrow> KeynoteDriver P X | PowerPointRef \<Rightarrow> PowerPointDriver P X)"


section \<open>Presentation manager (src/managers/presentation-manager.js)\<close>

record presentation_manager =
  fileManager :: file_manager
  currentDriver :: "driver_ref option"
  currentFile :: "presentation_file option"
  isPresenting :: bool
  currentSlideIndex :: int
  totalSlides :: int
  slideNotes :: string

definition PresentationManager_new :: "file_manager \<Rightarrow> presentation_manager" where
  "PresentationManager_new fm =
     \<lparr>fileManager = fm, currentDriver = None, currentFile = None, isPresenting = False,
      currentSlideIndex = 0, totalSlides = 0, slideNotes = []\<rparr>"

definition getDriverForFile :: "presentation_file \<Rightarrow> driver_ref option" where
  "getDriverForFile file =
     (if f_type file = ''keynote'' then Some KeynoteRef
      else if f_type file = ''powerpoint'' then Some PowerPointRef
      else None)"

text \<open>
  \<^verbatim>\<open>updatePresentationInfo\<close>.  A missing \<^verbatim>\<open>getCurrentSlideInfo\<close> method or a poll that
  throws is caught by the outer \<^verbatim>\<open>try\<close> and changes nothing; a \<^verbatim>\<open>getSlideNotes\<close> that
  throws gives empty notes.
\<close>

definition updatePresentationInfo ::
  "(driver_ref \<Rightarrow> 'w driver) \<Rightarrow> presentation_manager \<Rightarrow> 'w \<Rightarrow> presentation_manager \<times> 'w" where
  "updatePresentationInfo D pm w =
     (case currentDriver pm of
        None \<Rightarrow> (pm, w)
      | Some r \<Rightarrow>
          (case drv_getCurrentSlideInfo (D r) of
             None \<Rightarrow> (pm, w)
           | Some poll \<Rightarrow>
               (case poll w of
                  (Inl msg, w1) \<Rightarrow> (pm, w1)
                | (Inr slideInfo, w1) \<Rightarrow>
                    (let pm1 = pm\<lparr>currentSlideIndex := si_currentSlide slideInfo - 1,
                                   totalSlides := si_totalSlides slideInfo\<rparr>
                     in case drv_getSlideNotes (D r) (si_currentSlide slideInfo) w1 of
                          (Inr notes, w2) \<Rightarrow> (pm1\<lparr>slideNotes := notes\<rparr>, w2)
                        | (Inl msg, w2) \<Rightarrow> (pm1\<lparr>slideNotes := []\<rparr>, w2)))))"

definition failure :: "string \<Rightarrow> open_result" where
  "failure msg = \<lparr>success = False, message = msg\<rparr>"

text \<open>The body of the \<^verbatim>\<open>try\<close> block of \<^verbatim>\<open>openFile\<close>.\<close>

definition openFile_try ::
  "filesystem \<Rightarrow> (driver_ref \<Rightarrow> 'w driver) \<Rightarrow> string \<Rightarrow> presentation_manager \<Rightarrow> 'w
     \<Rightarrow> open_result res \<times> presentation_manager \<times> 'w" where
  "openFile_try F D filePath pm w =
     (if \<not> validateFile F filePath then (Inr (failure ''File not found or invalid''), pm, w)
      else
        (case setCurrentFile filePath (fileManager pm) of
           (None, fm1) \<Rightarrow>
             (Inr (failure ''File not in current folder''), pm\<lparr>fileManager := fm1\<rparr>, w)
         | (Some file, fm1) \<Rightarrow>
             (let pm1 = pm\<lparr>fileManager := fm1\<rparr> in
              case getDriverForFile file of
                None \<Rightarrow> (Inr (failure ''Unsupported file type''), pm1, w)
              | Some r \<Rightarrow>
                  (case drv_openFile (D r) filePath w of
                     (Inl msg, w1) \<Rightarrow> (Inl msg, pm1, w1)
                   | (Inr result, w1) \<Rightarrow>
                       if success result then
                         (case updatePresentationInfo D
                                 (pm1\<lparr>currentDriver := Some r, currentFile := Some file,
                                       isPresenting := False\<rparr>) w1 of
                            (pm2, w2) \<Rightarrow> (Inr result, pm2, w2))
                       else (Inr result, pm1, w1)))))"

text \<open>
  \<^verbatim>\<open>openFile\<close>: the \<^verbatim>\<open>catch\<close> clause turns anything thrown in the body into a failure
  result, so the method itself always returns a result object.
\<close>

definition openFile ::
  "filesystem \<Rightarrow> (driver_ref \<Rightarrow> 'w driver) \<Rightarrow> string \<Rightarrow> presentation_manager \<Rightarrow> 'w
     \<Rightarrow> open_result \<times> presentation_manager \<times> 'w" where
  "openFile F D filePath pm w =
     (case openFile_try F D filePath pm w of
        (Inr result, pm1, w1) \<Rightarrow> (result, pm1, w1)
      | (Inl msg, pm1, w1) \<Rightarrow> (failure msg, pm1, w1))"

definition startPresentation ::
  "(driver_ref \<Rightarrow> 'w driver) \<Rightarrow> presentation_manager \<Rightarrow> 'w \<Rightarrow> unit res \<times> presentation_manager \<times> 'w" where
  "startPresentation D pm w =
     (case currentDriver pm of
        None \<Rightarrow> (Inl ''No presentation file is currently open'', pm, w)
      | Some r \<Rightarrow>
          (case currentFile pm of
             None \<Rightarrow> (Inl ''No presentation file is currently open'', pm, w)
           | Some file \<Rightarrow>
               (case drv_startPresentation (D r) w of
                  (Inl msg, w1) \<Rightarrow> (Inl msg, pm, w1)
                | (Inr u, w1) \<Rightarrow>
                    (case updatePresentationInfo D (pm\<lparr>isPresenting := True\<rparr>) w1 of
                       (pm2, w2) \<Rightarrow> (Inr (), pm2, w2)))))"

definition stopPresentation ::
  "(driver_ref \<Rightarrow> 'w driver) \<Rightarrow> presentation_manager \<Rightarrow> 'w \<Rightarrow> unit res \<times> presentation_manager \<times> 'w" where
  "stopPresentation D pm w =
     (case currentDriver pm of
        None \<Rightarrow> (Inl ''No presentation is currently active'', pm, w)
      | Some r \<Rightarrow>
          (case drv_stopPresentation (D r) w of
             (Inl msg, w1) \<Rightarrow> (Inl msg, pm, w1)
           | (Inr u, w1) \<Rightarrow> (Inr (), pm\<lparr>isPresenting := False\<rparr>, w1)))"

definition closePresentation ::
  "(driver_ref \<Rightarrow> 'w driver) \<Rightarrow> presentation_manager \<Rightarrow> 'w \<Rightarrow> unit res \<times> presentation_manager \<times> 'w" where
  "closePresentation D pm w =
     (case currentDriver pm of
        None \<Rightarrow> (Inl ''No presentation is currently open'', pm, w)
      | Some r \<Rightarrow>
          (case drv_closePresentation (D r) w of
             (Inl msg, w1) \<Rightarrow> (Inl msg, pm, w1)
           | (Inr u, w1) \<Rightarrow>
               (Inr (),
                pm\<lparr>currentDriver := None, currentFile := None, isPresenting := False,
                    currentSlideIndex := 0, totalSlides := 0\<rparr>, w1)))"

definition nextSlide ::
  "(driver_ref \<Rightarrow> 'w driver) \<Rightarrow> presentation_manager \<Rightarrow> 'w \<Rightarrow> unit res \<times> presentation_manager \<times> 'w" where
  "nextSlide D pm w =
     (case currentDriver pm of
        None \<Rightarrow> (Inl ''No presentation is currently open'', pm, w)
      | Some r \<Rightarrow>
          (case drv_nextSlide (D r) w of
             (Inl msg, w1) \<Rightarrow> (Inl msg, pm, w1)
           | (Inr u, w1) \<Rightarrow>
               (case updatePresentationInfo D pm w1 of (pm2, w2) \<Rightarrow> (Inr (), pm2, w2))))"

definition prevSlide ::
  "(driver_ref \<Rightarrow> 'w driver) \<Rightarrow> presentation_manager \<Rightarrow> 'w \<Rightarrow> unit res \<times> presentation_manager \<times> 'w" where
  "prevSlide D pm w =
     (case currentDriver pm of
        None \<Rightarrow> (Inl ''No presentation is currently open'', pm, w)
      | Some r \<Rightarrow>
          (case drv_prevSlide (D r) w of
             (Inl msg, w1) \<Rightarrow> (Inl msg, pm, w1)
           | (Inr u, w1) \<Rightarrow>
               (case updatePresentationInfo D pm w1 of (pm2, w2) \<Rightarrow> (Inr (), pm2, w2))))"

text \<open>The status snapshot \<^verbatim>\<open>getStatus\<close> returns.\<close>

record file_summary =
  cf_name :: string
  cf_path :: string
  cf_type :: string
  cf_index :: int

record status =
  s_currentFile :: "file_summary option"
  s_isPresenting :: bool
  s_currentSlide :: int
  s_totalSlides :: int
  s_slideNotes :: string
  s_folder :: "string option"
  s_fileCount :: nat
  s_driverType :: "string option"

text \<open>
  The live poll of \<^verbatim>\<open>getStatus\<close>: made only when the current driver is the PowerPoint
  driver object, a presentation is running and the object has a
  \<^verbatim>\<open>getCurrentSlideInfo\<close> method; a poll that throws counts as no poll.
\<close>

definition realTimeSlideInfo ::
  "(driver_ref \<Rightarrow> 'w driver) \<Rightarrow> presentation_manager \<Rightarrow> 'w \<Rightarrow> slide_info option \<times> 'w" where
  "realTimeSlideInfo D pm w =
     (if currentDriver pm = Some PowerPointRef \<and> isPresenting pm then
        (case drv_getCurrentSlideInfo (D PowerPointRef) of
           None \<Rightarrow> (None, w)
         | Some poll \<Rightarrow>
             (case poll w of
                (Inr slideInfo, w1) \<Rightarrow> (Some slideInfo, w1)
              | (Inl msg, w1) \<Rightarrow> (None, w1)))
      else (None, w))"

definition getStatus ::
  "(driver_ref \<Rightarrow> 'w driver) \<Rightarrow> presentation_manager \<Rightarrow> 'w \<Rightarrow> status \<times> presentation_manager \<times> 'w" where
  "getStatus D pm w =
     (let currentFileIndex =
            (case currentFile pm of
               None \<Rightarrow> - 1
             | Some file \<Rightarrow> getCurrentFileIndex (fileManager pm))
      in case realTimeSlideInfo D pm w of
           (live, w1) \<Rightarrow>
             (\<lparr>s_currentFile =
                  (case currentFile pm of
                     None \<Rightarrow> None
                   | Some file \<Rightarrow>
                       Some \<lparr>cf_name = f_name file, cf_path = f_path file,
                             cf_type = f_type file, cf_index = currentFileIndex\<rparr>),
                s_isPresenting = isPresenting pm,
                s_currentSlide =
                  (case live of
                     Some slideInfo \<Rightarrow> si_currentSlide slideInfo
                   | None \<Rightarrow> currentSlideIndex pm + 1),
                s_totalSlides =
                  (case live of
                     Some slideInfo \<Rightarrow> si_totalSlides slideInfo
                   | None \<Rightarrow> totalSlides pm),
                s_slideNotes = slideNotes pm,
                s_folder = currentFolder (fileManager pm),
                s_fileCount = length (getFiles (fileManager pm)),
                s_driverType =
                  (case currentDriver pm of
                     None \<Rightarrow> None
                   | Some r \<Rightarrow> Some (if r = KeynoteRef then ''keynote'' else ''powerpoint''))\<rparr>,
              pm, w1))"

definition PM_setFolder ::
  "platform \<Rightarrow> filesystem \<Rightarrow> string \<Rightarrow> presentation_manager \<Rightarrow> presentation_manager" where
  "PM_setFolder P F folderPath pm =
     pm\<lparr>fileManager := setFolder P F folderPath (fileManager pm),
        currentDriver := None, currentFile := None, isPresenting := False,
        currentSlideIndex := 0, totalSlides := 0, slideNotes := []\<rparr>"

text \<open>The session fields of a manager: everything but the file manager it holds.\<close>

definition session ::
  "presentation_manager \<Rightarrow>
     driver_ref option \<times> presentation_file option \<times> bool \<times> int \<times> int \<times> string" where
  "session pm =
     (currentDriver pm, currentFile pm, isPresenting pm, currentSlideIndex pm,
      totalSlides pm, slideNotes pm)"


section \<open>WebSocket server (src/main/websocket-server.js)\<close>

text \<open>
  A parsed inbound message is a JSON value.  Reading a property of \<^verbatim>\<open>null\<close> throws a
  \<^verbatim>\<open>TypeError\<close>; reading \<^verbatim>\<open>type\<close>, \<^verbatim>\<open>token\<close> or \<^verbatim>\<open>filePath\<close> of a number, a
  boolean, a string or an array gives \<^verbatim>\<open>undefined\<close> (\<open>None\<close>).
\<close>

datatype json =
    JNull | JBool bool | JNum int | JStr string | JArr "json list" | JObj "(string \<times> json) list"

definition json_get :: "json \<Rightarrow> string \<Rightarrow> json option" where
  "json_get j k = (case j of JObj kvs \<Rightarrow> map_of kvs k | _ \<Rightarrow> None)"

text \<open>JavaScript truthiness of a property that may be absent.\<close>

definition truthy :: "json option \<Rightarrow> bool" where
  "truthy v =
     (case v of
        None \<Rightarrow> False
      | Some JNull \<Rightarrow> False
      | Some (JBool b) \<Rightarrow> b
      | Some (JNum n) \<Rightarrow> n \<noteq> 0
      | Some (JStr s) \<Rightarrow> s \<noteq> []
      | Some _ \<Rightarrow> True)"

datatype ready_state = CONNECTING | OPEN | CLOSING | CLOSED

record client =
  ws_readyState :: ready_state
  authenticated :: bool
  lastPing :: int
  ip :: string

datatype out_msg =
    Handshake string bool
  | AuthResult bool string
  | Status status
  | FileList "presentation_file list"
  | FileOpened bool string json
  | CommandResult string bool
  | Pong int
  | TokenChanged string
  | ErrorMsg string

text \<open>
  What the server does to the sockets: \<open>Sent c m\<close> is \<^verbatim>\<open>ws.send\<close> of message \<open>m\<close> on
  the socket of client \<open>c\<close>, \<open>Closed c\<close> is \<^verbatim>\<open>ws.close()\<close> on it.
\<close>

datatype event = Sent string out_msg | Closed string

text \<open>
  The fields of \<^verbatim>\<open>WebSocketServer\<close>.  \<open>clients\<close> is the \<^verbatim>\<open>Map\<close> from client id to
  client, in insertion order (the order \<^verbatim>\<open>forEach\<close> visits it).
\<close>

record server =
  port :: nat
  presentationManager :: presentation_manager
  clients :: "(string \<times> client) list"
  authToken :: string

fun map_set :: "'k \<Rightarrow> 'v \<Rightarrow> ('k \<times> 'v) list \<Rightarrow> ('k \<times> 'v) list" where
  "map_set k v [] = [(k, v)]"
| "map_set k v ((k', v') # kvs) = (if k' = k then (k, v) # kvs else (k', v') # map_set k v kvs)"

definition map_delete :: "'k \<Rightarrow> ('k \<times> 'v) list \<Rightarrow> ('k \<times> 'v) list" where
  "map_delete k kvs = filter (\<lambda>kv. fst kv \<noteq> k) kvs"

definition send :: "server \<Rightarrow> string \<Rightarrow> out_msg \<Rightarrow> event list" where
  "send srv clientId msg =
     (case map_of (clients srv) clientId of
        None \<Rightarrow> []
      | Some c \<Rightarrow> if ws_readyState c = OPEN then [Sent clientId msg] else [])"

definition sendError :: "server \<Rightarrow> string \<Rightarrow> string \<Rightarrow> event list" where
  "sendError srv clientId err = send srv clientId (ErrorMsg err)"

definition broadcast :: "server \<Rightarrow> out_msg \<Rightarrow> event list" where
  "broadcast srv msg =
     concat (map (\<lambda>(clientId, c).
                    if authenticated c \<and> ws_readyState c = OPEN then [Sent clientId msg] else [])
               (clients srv))"

definition sendStatus ::
  "(driver_ref \<Rightarrow> 'w driver) \<Rightarrow> string \<Rightarrow> server \<Rightarrow> 'w \<Rightarrow> server \<times> 'w \<times> event list" where
  "sendStatus D clientId srv w =
     (case getStatus D (presentationManager srv) w of
        (st, pm1, w1) \<Rightarrow>
          (let srv1 = srv\<lparr>presentationManager := pm1\<rparr>
           in (srv1, w1, send srv1 clientId (Status st))))"

definition broadcastStatus ::
  "(driver_ref \<Rightarrow> 'w driver) \<Rightarrow> server \<Rightarrow> 'w \<Rightarrow> server \<times> 'w \<times> event list" where
  "broadcastStatus D srv w =
     (case getStatus D (presentationManager srv) w of
        (st, pm1, w1) \<Rightarrow>
          (let srv1 = srv\<lparr>presentationManager := pm1\<rparr>
           in (srv1, w1, broadcast srv1 (Status st))))"

text \<open>
  The five slide-show commands share one shape: call the manager, and if it did not
  throw, answer the sender with a \<^verbatim>\<open>commandResult\<close> and broadcast the status.
\<close>

definition run_slide_command ::
  "(driver_ref \<Rightarrow> 'w driver) \<Rightarrow> string \<Rightarrow> string
     \<Rightarrow> (presentation_manager \<Rightarrow> 'w \<Rightarrow> unit res \<times> presentation_manager \<times> 'w)
     \<Rightarrow> server \<Rightarrow> 'w \<Rightarrow> unit res \<times> server \<times> 'w \<times> event list" where
  "run_slide_command D clientId cmd method srv w =
     (case method (presentationManager srv) w of
        (Inl msg, pm1, w1) \<Rightarrow> (Inl msg, srv\<lparr>presentationManager := pm1\<rparr>, w1, [])
      | (Inr u, pm1, w1) \<Rightarrow>
          (let srv1 = srv\<lparr>presentationManager := pm1\<rparr>;
               ev1 = send srv1 clientId (CommandResult cmd True)
           in case broadcastStatus D srv1 w1 of
                (srv2, w2, ev2) \<Rightarrow> (Inr (), srv2, w2, ev1 @ ev2)))"

text \<open>
  \<^verbatim>\<open>openFile\<close> called with the message's \<^verbatim>\<open>filePath\<close> property.  For a truthy value
  that is not a string, \<^verbatim>\<open>fs.stat\<close> rejects its argument inside \<^verbatim>\<open>validateFile\<close>,
  which then answers \<^verbatim>\<open>false\<close>.
\<close>

definition openFile_json ::
  "filesystem \<Rightarrow> (driver_ref \<Rightarrow> 'w driver) \<Rightarrow> json \<Rightarrow> presentation_manager \<Rightarrow> 'w
     \<Rightarrow> open_result \<times> presentation_manager \<times> 'w" where
  "openFile_json F D fp pm w =
     (case fp of
        JStr filePath \<Rightarrow> openFile F D filePath pm w
      | _ \<Rightarrow> (failure ''File not found or invalid'', pm, w))"

text \<open>
  \<^verbatim>\<open>handlePresentationCommand\<close>.  \<open>now\<close> is \<^verbatim>\<open>Date.now()\<close>; \<open>str\<close> renders the
  \<^verbatim>\<open>type\<close> property inside the template literal of the default case.
\<close>

definition handlePresentationCommand ::
  "(json option \<Rightarrow> string) \<Rightarrow> filesystem \<Rightarrow> (driver_ref \<Rightarrow> 'w driver) \<Rightarrow> int \<Rightarrow> string \<Rightarrow> json
     \<Rightarrow> server \<Rightarrow> 'w \<Rightarrow> unit res \<times> server \<times> 'w \<times> event list" where
  "handlePresentationCommand str F D now clientId msg srv w =
     (let type = json_get msg ''type'' in
      if type = Some (JStr ''ping'') then (Inr (), srv, w, send srv clientId (Pong now))
      else if type = Some (JStr ''status'') then
        (case sendStatus D clientId srv w of (srv1, w1, ev) \<Rightarrow> (Inr (), srv1, w1, ev))
      else if type = Some (JStr ''listFiles'') then
        (Inr (), srv, w, send srv clientId (FileList (getFiles (fileManager (presentationManager srv)))))
      else if type = Some (JStr ''openFile'') then
        (if \<not> truthy (json_get msg ''filePath'') then
           (Inl ''filePath parameter required'', srv, w, [])
         else
           (case json_get msg ''filePath'' of
              None \<Rightarrow> (Inl ''filePath parameter required'', srv, w, [])
            | Some fp \<Rightarrow>
                (case openFile_json F D fp (presentationManager srv) w of
                   (result, pm1, w1) \<Rightarrow>
                     (let srv1 = srv\<lparr>presentationManager := pm1\<rparr>;
                          ev1 = send srv1 clientId
                                  (FileOpened (success result) (message result) fp)
                      in case broadcastStatus D srv1 w1 of
                           (srv2, w2, ev2) \<Rightarrow> (Inr (), srv2, w2, ev1 @ ev2)))))
      else if type = Some (JStr ''start'') then
        run_slide_command D clientId ''start'' (startPresentation D) srv w
      else if type = Some (JStr ''stop'') then
        run_slide_command D clientId ''stop'' (stopPresentation D) srv w
      else if type = Some (JStr ''close'') then
        run_slide_command D clientId ''close'' (closePresentation D) srv w
      else if type = Some (JStr ''next'') then
        run_slide_command D clientId ''next'' (nextSlide D) srv w
      else if type = Some (JStr ''prev'') then
        run_slide_command D clientId ''prev'' (prevSlide D) srv w
      else (Inl (''Unknown command: '' @ str type), srv, w, []))"

definition set_authenticated :: "string \<Rightarrow> (string \<times> client) list \<Rightarrow> (string \<times> client) list" where
  "set_authenticated clientId cs =
     map (\<lambda>(k, c). if k = clientId then (k, c\<lparr>authenticated := True\<rparr>) else (k, c)) cs"

text \<open>
  \<^verbatim>\<open>handleMessage\<close>.  A client id that is not registered is ignored.  Reading
  \<^verbatim>\<open>message.type\<close> of \<^verbatim>\<open>null\<close> throws.
\<close>

definition handleMessage ::
  "(json option \<Rightarrow> string) \<Rightarrow> filesystem \<Rightarrow> (driver_ref \<Rightarrow> 'w driver) \<Rightarrow> int \<Rightarrow> string \<Rightarrow> json
     \<Rightarrow> server \<Rightarrow> 'w \<Rightarrow> unit res \<times> server \<times> 'w \<times> event list" where
  "handleMessage str F D now clientId msg srv w =
     (case map_of (clients srv) clientId of
        None \<Rightarrow> (Inr (), srv, w, [])
      | Some c \<Rightarrow>
          if msg = JNull then
            (Inl ''Cannot read properties of null'', srv, w, [])
          else if json_get msg ''type'' = Some (JStr ''auth'') then
            (if json_get msg ''token'' = Some (JStr (authToken srv)) then
               (let srv1 = srv\<lparr>clients := set_authenticated clientId (clients srv)\<rparr>;
                    ev1 = send srv1 clientId (AuthResult True ''Authentication successful'')
                in case sendStatus D clientId srv1 w of
                     (srv2, w2, ev2) \<Rightarrow> (Inr (), srv2, w2, ev1 @ ev2))
             else
               (Inr (), srv, w,
                send srv clientId (AuthResult False ''Invalid authentication token'')))
          else if \<not> authenticated c then
            (Inr (), srv, w, sendError srv clientId ''Authentication required'')
          else
            (case handlePresentationCommand str F D now clientId msg srv w of
               (Inl err, srv1, w1, ev) \<Rightarrow>
                 (Inr (), srv1, w1, ev @ sendError srv1 clientId (''Command failed: '' @ err))
             | (Inr u, srv1, w1, ev) \<Rightarrow> (Inr (), srv1, w1, ev)))"

text \<open>
  The socket's \<^verbatim>\<open>message\<close> handler: \<open>parsed\<close> is the result of \<^verbatim>\<open>JSON.parse\<close>,
  \<open>None\<close> when it throws.  Whatever is thrown inside the handler is answered with
  \<^verbatim>\<open>Invalid JSON format\<close>.
\<close>

definition onMessage ::
  "(json option \<Rightarrow> string) \<Rightarrow> filesystem \<Rightarrow> (driver_ref \<Rightarrow> 'w driver) \<Rightarrow> int \<Rightarrow> string
     \<Rightarrow> json option \<Rightarrow> server \<Rightarrow> 'w \<Rightarrow> server \<times> 'w \<times> event list" where
  "onMessage str F D now clientId parsed srv w =
     (case parsed of
        None \<Rightarrow> (srv, w, sendError srv clientId ''Invalid JSON format'')
      | Some msg \<Rightarrow>
          (case handleMessage str F D now clientId msg srv w of
             (Inl err, srv1, w1, ev) \<Rightarrow>
               (srv1, w1, ev @ sendError srv1 clientId ''Invalid JSON format'')
           | (Inr u, srv1, w1, ev) \<Rightarrow> (srv1, w1, ev)))"

text \<open>
  The server's \<^verbatim>\<open>connection\<close> handler: the new client (its id a fresh UUID) is
  registered unauthenticated with an open socket and greeted with the handshake.
\<close>

definition onConnection :: "string \<Rightarrow> string \<Rightarrow> int \<Rightarrow> server \<Rightarrow> server \<times> event list" where
  "onConnection clientId addr now srv =
     (let srv1 = srv\<lparr>clients :=
                      map_set clientId
                        \<lparr>ws_readyState = OPEN, authenticated = False, lastPing = now, ip = addr\<rparr>
                        (clients srv)\<rparr>
      in (srv1, send srv1 clientId (Handshake ''Presentation Control Helper v1.0'' True)))"

definition onClose :: "string \<Rightarrow> server \<Rightarrow> server" where
  "onClose clientId srv = srv\<lparr>clients := map_delete clientId (clients srv)\<rparr>"

text \<open>
  \<^verbatim>\<open>disconnectAllClients\<close>: every client whose socket is open is sent the notice and
  its socket is closed, in the order of the map; then the map is cleared.
\<close>

definition disconnectAllClients :: "server \<Rightarrow> server \<times> event list" where
  "disconnectAllClients srv =
     (srv\<lparr>clients := []\<rparr>,
      concat (map (\<lambda>(clientId, c).
                     if ws_readyState c = OPEN
                     then [Sent clientId
                             (TokenChanged
                                ''Authentication token has been regenerated. Please reconnect with the new token.''),
                           Closed clientId]
                     else [])
                (clients srv)))"

text \<open>
  \<^verbatim>\<open>regenerateAuthToken\<close> of the application (src/main/main.js), as far as it acts on
  the server.  \<open>response\<close> is the button of the confirmation dialog, \<open>newToken\<close> is what
  \<^verbatim>\<open>tokenManager.regenerateToken()\<close> returned (the token manager is not among the
  sources).
\<close>

definition regenerateAuthToken :: "int \<Rightarrow> string \<Rightarrow> server \<Rightarrow> server \<times> event list" where
  "regenerateAuthToken response newToken srv =
     (if response = 1 then disconnectAllClients (srv\<lparr>authToken := newToken\<rparr>) else (srv, []))"


section \<open>A concrete environment\<close>

text \<open>
  A small platform, file system and automation world on which the model can be run: a
  folder \<^verbatim>\<open>/deck\<close> that holds three presentations, a text file and a directory whose
  name ends in \<^verbatim>\<open>.key\<close>, listed out of order; a Keynote document of 10 slides, a
  PowerPoint presentation of 12 slides, and PowerPoint failing to open
  \<^verbatim>\<open>/deck/c.ppt\<close>.  The platform
  functions are plain ASCII versions of the library functions, adequate for the names
  used here.
\<close>

definition demo_extname :: "string \<Rightarrow> string" where
  "demo_extname s =
     (let r = takeWhile (\<lambda>c. c \<noteq> CHR ''.'') (rev s)
      in if length r = length s \<or> length r + 1 = length s then [] else CHR ''.'' # rev r)"

fun demo_compare :: "string \<Rightarrow> string \<Rightarrow> int" where
  "demo_compare [] [] = 0"
| "demo_compare [] (y # ys) = - 1"
| "demo_compare (x # xs) [] = 1"
| "demo_compare (x # xs) (y # ys) =
     (if (of_char x :: nat) < of_char y then - 1
      else if (of_char y :: nat) < of_char x then 1
      else demo_compare xs ys)"

definition digit_of :: "char \<Rightarrow> int option" where
  "digit_of c =
     (if (48::nat) \<le> of_char c \<and> of_char c \<le> (57::nat)
      then Some (int (of_char c) - 48) else None)"

fun demo_digits :: "int \<Rightarrow> string \<Rightarrow> int" where
  "demo_digits acc [] = acc"
| "demo_digits acc (c # cs) =
     (case digit_of c of None \<Rightarrow> acc | Some d \<Rightarrow> demo_digits (10 * acc + d) cs)"

definition demo_parseInt :: "string \<Rightarrow> int option" where
  "demo_parseInt s =
     (case s of
        [] \<Rightarrow> None
      | c # cs \<Rightarrow> (case digit_of c of None \<Rightarrow> None | Some d \<Rightarrow> Some (demo_digits 0 s)))"

definition demo_trim :: "string \<Rightarrow> string" where
  "demo_trim s =
     rev (dropWhile (\<lambda>c. c = CHR '' '') (rev (dropWhile (\<lambda>c. c = CHR '' '') s)))"

definition demo_platform :: platform where
  "demo_platform =
     \<lparr>extname = demo_extname, toLowerCase = (\<lambda>s. s),
      path_join = (\<lambda>folder name. folder @ ''/'' @ name),
      localeCompare = demo_compare, parseInt = demo_parseInt, trim = demo_trim\<rparr>"

definition demo_entries :: "dirent list" where
  "demo_entries =
     [\<lparr>d_name = ''c.ppt'', d_isFile = True\<rparr>,
      \<lparr>d_name = ''notes.txt'', d_isFile = True\<rparr>,
      \<lparr>d_name = ''a.key'', d_isFile = True\<rparr>,
      \<lparr>d_name = ''old.key'', d_isFile = False\<rparr>,
      \<lparr>d_name = ''b.pptx'', d_isFile = True\<rparr>]"

definition demo_fs :: filesystem where
  "demo_fs =
     \<lparr>readdir = (\<lambda>d. if d = ''/deck'' then Some demo_entries else None),
      stat = (\<lambda>p. if p = ''/deck/a.key'' \<or> p = ''/deck/b.pptx'' \<or> p = ''/deck/c.ppt''
                      \<or> p = ''/deck/notes.txt''
                   then Some \<lparr>st_isFile = True, st_size = 2048, st_mtime = 1700000000\<rparr>
                   else if p = ''/deck/old.key''
                   then Some \<lparr>st_isFile = False, st_size = 0, st_mtime = 1700000000\<rparr>
                   else None)\<rparr>"

text \<open>
  The applications' state is the number of times the running show has been advanced;
  the shows start on slide 3 (Keynote) and slide 5 (PowerPoint).
\<close>

definition demo_osascript :: "nat osascript" where
  "demo_osascript sc n =
     (case sc of
        KN_open p \<Rightarrow> (Inr '' a.key '', n)
      | KN_next \<Rightarrow> (Inr [], Suc n)
      | KN_count \<Rightarrow> (Inr ''10'', n)
      | KN_current \<Rightarrow> (Inr (if n = 0 then ''3'' else ''4''), n)
      | KN_notes k \<Rightarrow> (Inr ''Welcome everyone'', n)
      | PP_open p \<Rightarrow>
          (if p = ''/deck/c.ppt'' then (Inl ''The file is damaged.'', n)
           else (Inr ''b.pptx'', n))
      | PP_next \<Rightarrow> (Inr [], Suc n)
      | PP_total \<Rightarrow> (Inr ''12'', n)
      | PP_current \<Rightarrow> (Inr (if n = 0 then ''5'' else ''6''), n)
      | PP_notes \<Rightarrow> (Inr ''Agenda'', n)
      | _ \<Rightarrow> (Inr [], n))"

definition demo_world :: "nat automation" where
  "demo_world =
     \<lparr>kn_currentDocument = None, pp_currentPresentation = None, pp_addinConnected = False,
      apps = 0\<rparr>"

definition demo_drivers :: "driver_ref \<Rightarrow> nat automation driver" where
  "demo_drivers = applescript_drivers demo_platform demo_osascript"

text \<open>A file manager and a presentation manager after the folder has been chosen.\<close>

definition demo_files :: file_manager where
  "demo_files = setFolder demo_platform demo_fs ''/deck'' FileManager_new"

definition demo_manager :: presentation_manager where
  "demo_manager = PresentationManager_new demo_files"

text \<open>
  The manager and the world after \<^verbatim>\<open>/deck/a.key\<close> has been opened (Keynote) and after
  \<^verbatim>\<open>/deck/b.pptx\<close> has been opened (PowerPoint), and the same with the slide show
  started.
\<close>

definition keynote_opened :: "presentation_manager \<times> nat automation" where
  "keynote_opened = snd (openFile demo_fs demo_drivers ''/deck/a.key'' demo_manager demo_world)"

definition keynote_presenting :: "presentation_manager \<times> nat automation" where
  "keynote_presenting =
     snd (startPresentation demo_drivers (fst keynote_opened) (snd keynote_opened))"

definition powerpoint_opened :: "presentation_manager \<times> nat automation" where
  "powerpoint_opened =
     snd (openFile demo_fs demo_drivers ''/deck/b.pptx'' demo_manager demo_world)"

definition powerpoint_presenting :: "presentation_manager \<times> nat automation" where
  "powerpoint_presenting =
     snd (startPresentation demo_drivers (fst powerpoint_opened) (snd powerpoint_opened))"

text \<open>The presenter advances the running show by hand, outside the manager.\<close>

definition advanced_by_hand :: "nat automation \<Rightarrow> nat automation" where
  "advanced_by_hand w = w\<lparr>apps := Suc (apps w)\<rparr>"

text \<open>
  The session invariant: without an active driver there is no active file and no running
  presentation.
\<close>

definition session_inv :: "presentation_manager \<Rightarrow> bool" where
  "session_inv pm = (currentDriver pm = None \<longrightarrow> currentFile pm = None \<and> \<not> isPresenting pm)"


text \<open>
  Two worlds are the same to the live poll of \<^verbatim>\<open>getStatus\<close> when the PowerPoint driver
  object's \<^verbatim>\<open>getCurrentSlideInfo\<close> (if it has one) has the same outcome in both.
\<close>

definition same_slide_info :: "(driver_ref \<Rightarrow> 'w driver) \<Rightarrow> 'w \<Rightarrow> 'w \<Rightarrow> bool" where
  "same_slide_info D w w' =
     (case drv_getCurrentSlideInfo (D PowerPointRef) of
        None \<Rightarrow> True
      | Some poll \<Rightarrow> fst (poll w') = fst (poll w))"

text \<open>Driver objects whose \<^verbatim>\<open>getCurrentSlideInfo\<close> throws.\<close>

definition flaky_drivers :: "driver_ref \<Rightarrow> nat automation driver" where
  "flaky_drivers r =
     (demo_drivers r)\<lparr>drv_getCurrentSlideInfo := Some (\<lambda>w. (Inl ''osascript timed out'', w))\<rparr>"


text \<open>
  A server with three registered clients: \<^verbatim>\<open>deck-1\<close> is authenticated, \<^verbatim>\<open>deck-2\<close> has
  connected but not authenticated, \<^verbatim>\<open>deck-3\<close> is an authenticated client whose socket
  has already closed.  \<open>demo_str\<close> renders a \<^verbatim>\<open>type\<close> property for the error text of an
  unknown command.
\<close>

definition demo_server :: server where
  "demo_server =
     \<lparr>port = 8765, presentationManager = demo_manager,
      clients =
        [(''deck-1'', \<lparr>ws_readyState = OPEN, authenticated = True, lastPing = 0, ip = ''127.0.0.1''\<rparr>),
         (''deck-2'', \<lparr>ws_readyState = OPEN, authenticated = False, lastPing = 0, ip = ''127.0.0.1''\<rparr>),
         (''deck-3'', \<lparr>ws_readyState = CLOSED, authenticated = True, lastPing = 0, ip = ''127.0.0.1''\<rparr>)],
      authToken = ''a1b2c3d4''\<rparr>"

definition demo_str :: "json option \<Rightarrow> string" where
  "demo_str v = (case v of None \<Rightarrow> ''undefined'' | Some (JStr s) \<Rightarrow> s | Some _ \<Rightarrow> ''[object Object]'')"


section \<open>Auxiliary facts\<close>

lemma js_rem_nonneg: "0 \<le> a \<Longrightarrow> 0 < b \<Longrightarrow> js_rem a b = a mod b"
  by (simp add: js_rem_def)

lemma findIndex_found:
  "0 \<le> findIndex p xs \<Longrightarrow> findIndex p xs < int (length xs) \<and> p (xs ! nat (findIndex p xs))"
proof (induction xs)
  case Nil
  then show ?case by simp
next
  case (Cons x xs)
  show ?case
  proof (cases "p x")
    case True
    then show ?thesis by simp
  next
    case False
    with Cons.prems have nn: "0 \<le> findIndex p xs"
      by (simp add: Let_def split: if_splits)
    from Cons.IH [OF nn] False nn show ?thesis
      by (simp add: Let_def nat_add_distrib)
  qed
qed

lemma findIndex_none: "findIndex p xs < 0 \<longleftrightarrow> (\<forall>x \<in> set xs. \<not> p x)"
  by (induction xs) (auto simp: Let_def)

lemma updatePresentationInfo_frame:
  "updatePresentationInfo D pm w = (pm', w') \<Longrightarrow>
     currentDriver pm' = currentDriver pm \<and> currentFile pm' = currentFile pm \<and>
     isPresenting pm' = isPresenting pm \<and> fileManager pm' = fileManager pm"
  by (auto simp: updatePresentationInfo_def Let_def split: option.splits prod.splits sum.splits)

lemma nextFile_files: "files (snd (nextFile fm)) = files fm"
  by (simp add: nextFile_def Let_def)

lemma nextFile_step:
  "files fm \<noteq> [] \<Longrightarrow>
     snd (nextFile fm) =
       fm\<lparr>currentFileIndex := js_rem (currentFileIndex fm + 1) (int (length (files fm)))\<rparr>"
  by (simp add: nextFile_def Let_def)

text \<open>
  From a cursor that is not negative, \<open>k\<close> calls of \<^verbatim>\<open>nextFile\<close> add \<open>k\<close> to it modulo
  the number of files.
\<close>

lemma nextFile_times_index:
  "files fm \<noteq> [] \<Longrightarrow> 0 \<le> currentFileIndex fm \<Longrightarrow>
   nextFile_times k fm =
     fm\<lparr>currentFileIndex :=
          (if k = 0 then currentFileIndex fm
           else (currentFileIndex fm + int k) mod int (length (files fm)))\<rparr>"
proof (induction k arbitrary: fm)
  case 0
  then show ?case by simp
next
  case (Suc k)
  let ?n = "int (length (files fm))"
  let ?fm1 = "snd (nextFile fm)"
  have n: "0 < ?n" using Suc.prems by simp
  have step: "?fm1 = fm\<lparr>currentFileIndex := (currentFileIndex fm + 1) mod ?n\<rparr>"
    using Suc.prems n by (simp add: nextFile_step js_rem_nonneg)
  have f1: "files ?fm1 \<noteq> []" using Suc.prems by (simp add: nextFile_files)
  have i1: "0 \<le> currentFileIndex ?fm1" using n by (simp add: step)
  have "nextFile_times (Suc k) fm = nextFile_times k ?fm1" by simp
  also have "\<dots> = ?fm1\<lparr>currentFileIndex :=
                        (if k = 0 then currentFileIndex ?fm1
                         else (currentFileIndex ?fm1 + int k) mod int (length (files ?fm1)))\<rparr>"
    using Suc.IH [OF f1 i1] .
  also have "\<dots> = fm\<lparr>currentFileIndex := (currentFileIndex fm + int (Suc k)) mod ?n\<rparr>"
  proof (cases "k = 0")
    case True
    then show ?thesis by (simp add: step)
  next
    case False
    have "((currentFileIndex fm + 1) mod ?n + int k) mod ?n = (currentFileIndex fm + 1 + int k) mod ?n"
      by (rule mod_add_left_eq)
    also have "currentFileIndex fm + 1 + int k = currentFileIndex fm + int (Suc k)"
      by simp
    finally have e:
      "((currentFileIndex fm + 1) mod ?n + int k) mod ?n = (currentFileIndex fm + int (Suc k)) mod ?n" .
    have "?fm1\<lparr>currentFileIndex :=
                (currentFileIndex ?fm1 + int k) mod int (length (files ?fm1))\<rparr>
        = fm\<lparr>currentFileIndex := ((currentFileIndex fm + 1) mod ?n + int k) mod ?n\<rparr>"
      by (simp only: step) simp
    with False show ?thesis by (simp only: e if_False)
  qed
  finally show ?case by simp
qed

lemma nextFile_times_from_none:
  assumes "files fm \<noteq> []" and "currentFileIndex fm = - 1"
  shows "currentFileIndex (nextFile_times (length (files fm)) fm) = int (length (files fm)) - 1"
proof -
  let ?n = "length (files fm)"
  obtain m where m: "?n = Suc m" using assms(1) by (cases "files fm") auto
  let ?fm1 = "snd (nextFile fm)"
  have step: "?fm1 = fm\<lparr>currentFileIndex := 0\<rparr>"
    using assms by (simp add: nextFile_step js_rem_def)
  have "nextFile_times ?n fm = nextFile_times m ?fm1" by (simp add: m)
  also have "\<dots> = ?fm1\<lparr>currentFileIndex :=
                        (if m = 0 then currentFileIndex ?fm1
                         else (currentFileIndex ?fm1 + int m) mod int (length (files ?fm1)))\<rparr>"
    by (rule nextFile_times_index) (simp_all add: step assms)
  finally show ?thesis by (simp add: step m)
qed


section \<open>The cursor of the file registry\<close>

text \<open>
  C5 (as amended).  For a non-empty file list of \<open>N\<close> files and a cursor on one of them
  (\<open>0 \<le> i < N\<close>), \<open>N\<close> calls of \<^verbatim>\<open>nextFile\<close> bring the file manager back to the state it
  started from; from the cursor \<open>-1\<close> (no file selected) they end on the last file,
  index \<open>N - 1\<close>.  \<^verbatim>\<open>prevFile\<close> with the cursor at index 0 moves it to \<open>N - 1\<close>.  On an
  empty list both calls return \<^verbatim>\<open>null\<close> and change nothing.
\<close>

theorem file_cursor_circular:
  "(files fm \<noteq> [] \<and> 0 \<le> currentFileIndex fm \<and> currentFileIndex fm < int (length (files fm))
      \<longrightarrow> nextFile_times (length (files fm)) fm = fm)
   \<and> (files fm \<noteq> [] \<and> currentFileIndex fm = - 1
      \<longrightarrow> currentFileIndex (nextFile_times (length (files fm)) fm) = int (length (files fm)) - 1)
   \<and> (files fm \<noteq> [] \<and> currentFileIndex fm = 0
      \<longrightarrow> currentFileIndex (snd (prevFile fm)) = int (length (files fm)) - 1)
   \<and> (files fm = [] \<longrightarrow> nextFile fm = (None, fm) \<and> prevFile fm = (None, fm))"
proof (intro conjI impI)
  assume a: "files fm \<noteq> [] \<and> 0 \<le> currentFileIndex fm \<and> currentFileIndex fm < int (length (files fm))"
  then show "nextFile_times (length (files fm)) fm = fm"
    by (simp add: nextFile_times_index)
next
  assume "files fm \<noteq> [] \<and> currentFileIndex fm = - 1"
  then show "currentFileIndex (nextFile_times (length (files fm)) fm) = int (length (files fm)) - 1"
    by (simp add: nextFile_times_from_none)
next
  assume "files fm \<noteq> [] \<and> currentFileIndex fm = 0"
  then show "currentFileIndex (snd (prevFile fm)) = int (length (files fm)) - 1"
    by (simp add: prevFile_def Let_def)
next
  assume "files fm = []"
  then show "nextFile fm = (None, fm)" by (simp add: nextFile_def)
next
  assume "files fm = []"
  then show "prevFile fm = (None, fm)" by (simp add: prevFile_def)
qed

text \<open>
  The three files of the demo folder: from the cursor on \<^verbatim>\<open>b.pptx\<close> three advances
  return to it, from no selection they end on index 2, a retreat from index 0 lands on
  index 2, and a fresh file manager (no files) is left alone.
\<close>

theorem file_cursor_circular_witness:
  "(files (demo_files\<lparr>currentFileIndex := 1\<rparr>) \<noteq> []
      \<and> 0 \<le> currentFileIndex (demo_files\<lparr>currentFileIndex := 1\<rparr>)
      \<and> currentFileIndex (demo_files\<lparr>currentFileIndex := 1\<rparr>) < int (length (files (demo_files\<lparr>currentFileIndex := 1\<rparr>)))
      \<and> nextFile_times (length (files (demo_files\<lparr>currentFileIndex := 1\<rparr>))) (demo_files\<lparr>currentFileIndex := 1\<rparr>)
          = demo_files\<lparr>currentFileIndex := 1\<rparr>)
   \<and> (files demo_files \<noteq> [] \<and> currentFileIndex demo_files = - 1
      \<and> currentFileIndex (nextFile_times (length (files demo_files)) demo_files) = 2)
   \<and> (files (demo_files\<lparr>currentFileIndex := 0\<rparr>) \<noteq> []
      \<and> currentFileIndex (demo_files\<lparr>currentFileIndex := 0\<rparr>) = 0
      \<and> currentFileIndex (snd (prevFile (demo_files\<lparr>currentFileIndex := 0\<rparr>))) = 2)
   \<and> (files FileManager_new = []
      \<and> nextFile FileManager_new = (None, FileManager_new)
      \<and> prevFile FileManager_new = (None, FileManager_new))"
proof -
  have len: "length (files demo_files) = 3" by code_simp
  have idx: "currentFileIndex demo_files = - 1" by code_simp
  have ne: "files demo_files \<noteq> []" using len by auto
  have e: "files FileManager_new = []" by (simp add: FileManager_new_def)
  show ?thesis
    using file_cursor_circular [of "demo_files\<lparr>currentFileIndex := 1\<rparr>"]
      file_cursor_circular [of demo_files]
      file_cursor_circular [of "demo_files\<lparr>currentFileIndex := 0\<rparr>"]
      file_cursor_circular [of FileManager_new]
    by (simp add: len idx ne e)
qed

text \<open>
  C5 as stated fails for the starting cursor \<open>-1\<close>, the cursor \<^verbatim>\<open>setFolder\<close> leaves:
  right after the demo folder with its three files has been scanned, three calls of
  \<^verbatim>\<open>nextFile\<close> end on index 2 and not back on \<open>-1\<close>.
\<close>

theorem file_cursor_circular_counterexample:
  "length (files demo_files) = 3
   \<and> currentFileIndex demo_files = - 1
   \<and> currentFileIndex (nextFile_times (length (files demo_files)) demo_files) = 2
   \<and> nextFile_times (length (files demo_files)) demo_files \<noteq> demo_files"
proof -
  have a: "length (files demo_files) = 3" by code_simp
  have b: "currentFileIndex demo_files = - 1" by code_simp
  have c: "currentFileIndex (nextFile_times (length (files demo_files)) demo_files) = 2"
    by code_simp
  from b c have "nextFile_times (length (files demo_files)) demo_files \<noteq> demo_files"
    by auto
  with a b c show ?thesis by simp
qed

section \<open>Opening a file\<close>

text \<open>
  The listed causes of a failed \<^verbatim>\<open>openFile\<close> do give a failure result: a path that is
  not an existing file, a path that no registry entry has, a type without a driver, a
  driver that reports failure, and a driver that throws.
\<close>

lemma openFile_failure_causes:
  "\<not> validateFile F filePath \<Longrightarrow>
     fst (openFile F D filePath pm w) = failure ''File not found or invalid''"
  "validateFile F filePath \<Longrightarrow> \<forall>f \<in> set (files (fileManager pm)). f_path f \<noteq> filePath \<Longrightarrow>
     fst (openFile F D filePath pm w) = failure ''File not in current folder''"
  "validateFile F filePath \<Longrightarrow> setCurrentFile filePath (fileManager pm) = (Some file, fm1) \<Longrightarrow>
     getDriverForFile file = None \<Longrightarrow>
     fst (openFile F D filePath pm w) = failure ''Unsupported file type''"
  "validateFile F filePath \<Longrightarrow> setCurrentFile filePath (fileManager pm) = (Some file, fm1) \<Longrightarrow>
     getDriverForFile file = Some r \<Longrightarrow> drv_openFile (D r) filePath w = (Inr res, w1) \<Longrightarrow>
     \<not> success res \<Longrightarrow> fst (openFile F D filePath pm w) = res"
  "validateFile F filePath \<Longrightarrow> setCurrentFile filePath (fileManager pm) = (Some file, fm1) \<Longrightarrow>
     getDriverForFile file = Some r \<Longrightarrow> drv_openFile (D r) filePath w = (Inl msg, w1) \<Longrightarrow>
     fst (openFile F D filePath pm w) = failure msg"
proof -
  show "\<not> validateFile F filePath \<Longrightarrow>
     fst (openFile F D filePath pm w) = failure ''File not found or invalid''"
    by (simp add: openFile_def openFile_try_def)
  show "validateFile F filePath \<Longrightarrow> \<forall>f \<in> set (files (fileManager pm)). f_path f \<noteq> filePath \<Longrightarrow>
     fst (openFile F D filePath pm w) = failure ''File not in current folder''"
  proof -
    assume v: "validateFile F filePath"
      and n: "\<forall>f \<in> set (files (fileManager pm)). f_path f \<noteq> filePath"
    from n have "findIndex (\<lambda>file. f_path file = filePath) (files (fileManager pm)) < 0"
      by (simp add: findIndex_none)
    then have "setCurrentFile filePath (fileManager pm) = (None, fileManager pm)"
      by (simp add: setCurrentFile_def Let_def)
    with v show ?thesis by (simp add: openFile_def openFile_try_def)
  qed
  show "validateFile F filePath \<Longrightarrow> setCurrentFile filePath (fileManager pm) = (Some file, fm1) \<Longrightarrow>
     getDriverForFile file = None \<Longrightarrow>
     fst (openFile F D filePath pm w) = failure ''Unsupported file type''"
    by (simp add: openFile_def openFile_try_def)
  show "validateFile F filePath \<Longrightarrow> setCurrentFile filePath (fileManager pm) = (Some file, fm1) \<Longrightarrow>
     getDriverForFile file = Some r \<Longrightarrow> drv_openFile (D r) filePath w = (Inr res, w1) \<Longrightarrow>
     \<not> success res \<Longrightarrow> fst (openFile F D filePath pm w) = res"
    by (simp add: openFile_def openFile_try_def)
  show "validateFile F filePath \<Longrightarrow> setCurrentFile filePath (fileManager pm) = (Some file, fm1) \<Longrightarrow>
     getDriverForFile file = Some r \<Longrightarrow> drv_openFile (D r) filePath w = (Inl msg, w1) \<Longrightarrow>
     fst (openFile F D filePath pm w) = failure msg"
    by (simp add: openFile_def openFile_try_def)
qed

text \<open>The session fields are assigned only on the path that returns the driver's success.\<close>

lemma openFile_failure_session:
  assumes "openFile F D filePath pm w = (result, pm', w')" and "\<not> success result"
  shows "session pm' = session pm"
  using assms
  by (auto simp: openFile_def openFile_try_def session_def failure_def setCurrentFile_def Let_def
      split: if_splits option.splits prod.splits sum.splits)

text \<open>
  C1.  Whenever \<^verbatim>\<open>openFile\<close> returns a result whose \<^verbatim>\<open>success\<close> is false, whatever the
  cause (the path is not an existing file, no registry entry has the path, the file's
  type has no driver, the driver's \<^verbatim>\<open>openFile\<close> reports failure or throws), the session
  fields (current driver, current file, presenting flag, slide index, slide count, notes)
  are what they were before the call.  The method has no exceptional outcome: its
  \<^verbatim>\<open>catch\<close> clause turns a throw into the result \<open>failure msg\<close>.
\<close>

theorem openFile_failure_keeps_session:
  assumes "openFile F D filePath pm w = (result, pm', w')" and "\<not> success result"
  shows "session pm' = session pm"
  using assms by (rule openFile_failure_session)

text \<open>
  With \<^verbatim>\<open>a.key\<close> open in Keynote, opening \<^verbatim>\<open>c.ppt\<close> fails in PowerPoint; the session
  still is the Keynote one.
\<close>

theorem openFile_failure_keeps_session_witness:
  "\<not> success (fst (openFile demo_fs demo_drivers ''/deck/c.ppt'' (fst keynote_opened) (snd keynote_opened)))
   \<and> session (fst (snd (openFile demo_fs demo_drivers ''/deck/c.ppt'' (fst keynote_opened) (snd keynote_opened))))
       = session (fst keynote_opened)"
proof -
  let ?r = "openFile demo_fs demo_drivers ''/deck/c.ppt'' (fst keynote_opened) (snd keynote_opened)"
  have e: "?r = (fst ?r, fst (snd ?r), snd (snd ?r))" by simp
  have f: "\<not> success (fst ?r)" by code_simp
  from openFile_failure_keeps_session [OF e f] f show ?thesis by simp
qed

text \<open>
  C10.  When \<^verbatim>\<open>openFile\<close> fails although the path is an existing file and the registry
  has an entry for it (at index \<open>i\<close>, the first entry with that path), the registry's
  cursor has been moved to \<open>i\<close> by \<^verbatim>\<open>setCurrentFile\<close> and stays there; the session
  fields are unchanged.
\<close>

theorem openFile_failure_moves_cursor:
  assumes "validateFile F filePath"
    and "findIndex (\<lambda>file. f_path file = filePath) (files (fileManager pm)) = i"
    and "0 \<le> i"
    and "openFile F D filePath pm w = (result, pm', w')"
    and "\<not> success result"
  shows "currentFileIndex (fileManager pm') = i
         \<and> (\<exists>file. js_index (files (fileManager pm')) i = Some file \<and> f_path file = filePath)
         \<and> session pm' = session pm"
proof -
  from findIndex_found [of "\<lambda>file. f_path file = filePath" "files (fileManager pm)"] assms(2,3)
  have lt: "i < int (length (files (fileManager pm)))"
    and at: "f_path (files (fileManager pm) ! nat i) = filePath"
    by simp_all
  have sc: "setCurrentFile filePath (fileManager pm) =
              (Some (files (fileManager pm) ! nat i), (fileManager pm)\<lparr>currentFileIndex := i\<rparr>)"
    using assms(2,3) lt by (simp add: setCurrentFile_def js_index_def Let_def)
  have fm: "fileManager pm' = (fileManager pm)\<lparr>currentFileIndex := i\<rparr>"
    using assms(1,4,5) sc
    by (auto simp: openFile_def openFile_try_def Let_def failure_def
        split: option.splits prod.splits sum.splits if_splits
        dest: updatePresentationInfo_frame)
  have "js_index (files (fileManager pm')) i = Some (files (fileManager pm) ! nat i)"
    using assms(3) lt by (simp add: fm js_index_def)
  with at fm openFile_failure_session [OF assms(4,5)] show ?thesis by simp
qed

text \<open>
  In the demo folder no file is selected (cursor \<open>-1\<close>); the failed attempt to open
  \<^verbatim>\<open>c.ppt\<close> leaves the cursor on its index 2.
\<close>

theorem openFile_failure_moves_cursor_witness:
  "validateFile demo_fs ''/deck/c.ppt''
   \<and> findIndex (\<lambda>file. f_path file = ''/deck/c.ppt'') (files (fileManager demo_manager)) = 2
   \<and> \<not> success (fst (openFile demo_fs demo_drivers ''/deck/c.ppt'' demo_manager demo_world))
   \<and> currentFileIndex (fileManager demo_manager) = - 1
   \<and> currentFileIndex (fileManager (fst (snd (openFile demo_fs demo_drivers ''/deck/c.ppt'' demo_manager demo_world)))) = 2
   \<and> session (fst (snd (openFile demo_fs demo_drivers ''/deck/c.ppt'' demo_manager demo_world)))
       = session demo_manager"
proof -
  let ?r = "openFile demo_fs demo_drivers ''/deck/c.ppt'' demo_manager demo_world"
  have v: "validateFile demo_fs ''/deck/c.ppt''" by code_simp
  have i: "findIndex (\<lambda>file. f_path file = ''/deck/c.ppt'') (files (fileManager demo_manager)) = 2"
    by code_simp
  have e: "?r = (fst ?r, fst (snd ?r), snd (snd ?r))" by simp
  have f: "\<not> success (fst ?r)" by code_simp
  have b: "currentFileIndex (fileManager demo_manager) = - 1" by code_simp
  from openFile_failure_moves_cursor [OF v i _ e f] v i f b show ?thesis by simp
qed


section \<open>Closing the presentation\<close>

text \<open>
  What a successful \<^verbatim>\<open>closePresentation\<close> does: driver, file, presenting flag, slide
  index and slide count are reset; the notes are left as they were.
\<close>

lemma closePresentation_success:
  assumes "closePresentation D pm w = (Inr u, pm', w')"
  shows "currentDriver pm' = None \<and> currentFile pm' = None \<and> \<not> isPresenting pm'
         \<and> currentSlideIndex pm' = 0 \<and> totalSlides pm' = 0 \<and> slideNotes pm' = slideNotes pm"
  using assms
  by (auto simp: closePresentation_def split: option.splits prod.splits sum.splits)

text \<open>
  C2 (the code at the failing input).  \<^verbatim>\<open>a.key\<close> is open in Keynote and the cached
  notes are \<^verbatim>\<open>Welcome everyone\<close>.  \<^verbatim>\<open>closePresentation\<close> succeeds and unsets the driver,
  but the notes keep the text of the closed presentation, where a new manager has the
  empty string.
\<close>

theorem closePresentation_keeps_notes:
  "slideNotes (fst keynote_opened) = ''Welcome everyone''
   \<and> fst (closePresentation demo_drivers (fst keynote_opened) (snd keynote_opened)) = Inr ()
   \<and> currentDriver (fst (snd (closePresentation demo_drivers (fst keynote_opened) (snd keynote_opened)))) = None
   \<and> slideNotes (fst (snd (closePresentation demo_drivers (fst keynote_opened) (snd keynote_opened))))
       = ''Welcome everyone''
   \<and> slideNotes (PresentationManager_new FileManager_new) = []"
  by code_simp


section \<open>The session invariant\<close>

lemma session_inv_openFile:
  "session_inv pm \<Longrightarrow> session_inv (fst (snd (openFile F D filePath pm w)))"
  by (auto simp: openFile_def openFile_try_def setCurrentFile_def Let_def session_inv_def
      split: if_splits option.splits prod.splits sum.splits
      dest!: updatePresentationInfo_frame)

lemma session_inv_startPresentation:
  "session_inv pm \<Longrightarrow> session_inv (fst (snd (startPresentation D pm w)))"
  by (auto simp: startPresentation_def session_inv_def
      split: option.splits prod.splits sum.splits
      dest!: updatePresentationInfo_frame)

lemma session_inv_stopPresentation:
  "session_inv pm \<Longrightarrow> session_inv (fst (snd (stopPresentation D pm w)))"
  by (auto simp: stopPresentation_def session_inv_def split: option.splits prod.splits sum.splits)

lemma session_inv_closePresentation:
  "session_inv pm \<Longrightarrow> session_inv (fst (snd (closePresentation D pm w)))"
  by (auto simp: closePresentation_def session_inv_def split: option.splits prod.splits sum.splits)

lemma session_inv_nextSlide:
  "session_inv pm \<Longrightarrow> session_inv (fst (snd (nextSlide D pm w)))"
  by (auto simp: nextSlide_def session_inv_def
      split: option.splits prod.splits sum.splits
      dest!: updatePresentationInfo_frame)

lemma session_inv_prevSlide:
  "session_inv pm \<Longrightarrow> session_inv (fst (snd (prevSlide D pm w)))"
  by (auto simp: prevSlide_def session_inv_def
      split: option.splits prod.splits sum.splits
      dest!: updatePresentationInfo_frame)

lemma getStatus_manager: "fst (snd (getStatus D pm w)) = pm"
  by (simp add: getStatus_def Let_def split: prod.splits)

text \<open>
  C9.  A new manager satisfies the session invariant, and every operation of the manager
  preserves it, whether the operation returns or throws: \<^verbatim>\<open>openFile\<close>,
  \<^verbatim>\<open>startPresentation\<close>, \<^verbatim>\<open>stopPresentation\<close>, \<^verbatim>\<open>closePresentation\<close>, \<^verbatim>\<open>nextSlide\<close>,
  \<^verbatim>\<open>prevSlide\<close>, \<^verbatim>\<open>setFolder\<close> and \<^verbatim>\<open>getStatus\<close>.
\<close>

theorem session_invariant_preserved:
  "session_inv (PresentationManager_new fm)
   \<and> (session_inv pm \<longrightarrow>
        session_inv (fst (snd (openFile F D filePath pm w)))
      \<and> session_inv (fst (snd (startPresentation D pm w)))
      \<and> session_inv (fst (snd (stopPresentation D pm w)))
      \<and> session_inv (fst (snd (closePresentation D pm w)))
      \<and> session_inv (fst (snd (nextSlide D pm w)))
      \<and> session_inv (fst (snd (prevSlide D pm w)))
      \<and> session_inv (PM_setFolder P F folderPath pm)
      \<and> session_inv (fst (snd (getStatus D pm w))))"
proof (intro conjI impI)
  show "session_inv (PresentationManager_new fm)"
    by (simp add: session_inv_def PresentationManager_new_def)
next
  assume "session_inv pm"
  then show "session_inv (fst (snd (getStatus D pm w)))"
    by (simp add: getStatus_manager)
next
  show "session_inv (PM_setFolder P F folderPath pm)"
    by (simp add: session_inv_def PM_setFolder_def)
qed (simp_all add: session_inv_openFile session_inv_startPresentation
      session_inv_stopPresentation session_inv_closePresentation session_inv_nextSlide
      session_inv_prevSlide)

text \<open>
  The Keynote session of the demo satisfies the invariant with a driver set, and so do
  the states after each operation on it.
\<close>

theorem session_invariant_preserved_witness:
  "session_inv (fst keynote_opened)
   \<and> currentDriver (fst keynote_opened) = Some KeynoteRef
   \<and> session_inv (fst (snd (openFile demo_fs demo_drivers ''/deck/c.ppt'' (fst keynote_opened) (snd keynote_opened))))
   \<and> session_inv (fst (snd (startPresentation demo_drivers (fst keynote_opened) (snd keynote_opened))))
   \<and> session_inv (fst (snd (stopPresentation demo_drivers (fst keynote_opened) (snd keynote_opened))))
   \<and> session_inv (fst (snd (closePresentation demo_drivers (fst keynote_opened) (snd keynote_opened))))
   \<and> session_inv (fst (snd (nextSlide demo_drivers (fst keynote_opened) (snd keynote_opened))))
   \<and> session_inv (fst (snd (prevSlide demo_drivers (fst keynote_opened) (snd keynote_opened))))
   \<and> session_inv (PM_setFolder demo_platform demo_fs ''/deck'' (fst keynote_opened))
   \<and> session_inv (fst (snd (getStatus demo_drivers (fst keynote_opened) (snd keynote_opened))))"
proof -
  have d: "currentDriver (fst keynote_opened) = Some KeynoteRef" by code_simp
  then have i: "session_inv (fst keynote_opened)" by (simp add: session_inv_def)
  from session_invariant_preserved
         [of FileManager_new "fst keynote_opened" demo_fs demo_drivers "''/deck/c.ppt''"
             "snd keynote_opened" demo_platform "''/deck''"]
       i d
  show ?thesis by simp
qed

section \<open>The status snapshot\<close>

lemma realTimeSlideInfo_live:
  "currentDriver pm = Some PowerPointRef \<Longrightarrow> isPresenting pm \<Longrightarrow>
   drv_getCurrentSlideInfo (D PowerPointRef) = Some poll \<Longrightarrow> fst (poll w) = Inr slideInfo \<Longrightarrow>
   fst (realTimeSlideInfo D pm w) = Some slideInfo"
  by (cases "poll w") (simp add: realTimeSlideInfo_def)

lemma realTimeSlideInfo_idle:
  "currentDriver pm \<noteq> Some PowerPointRef \<or> \<not> isPresenting pm
     \<or> drv_getCurrentSlideInfo (D PowerPointRef) = None \<Longrightarrow>
   realTimeSlideInfo D pm w = (None, w)"
  by (auto simp: realTimeSlideInfo_def)

lemma realTimeSlideInfo_throws:
  "drv_getCurrentSlideInfo (D PowerPointRef) = Some poll \<Longrightarrow> fst (poll w) = Inl msg \<Longrightarrow>
   fst (realTimeSlideInfo D pm w) = None"
  by (cases "poll w") (simp add: realTimeSlideInfo_def)

lemma getStatus_slides:
  "s_currentSlide (fst (getStatus D pm w)) =
     (case fst (realTimeSlideInfo D pm w) of
        Some slideInfo \<Rightarrow> si_currentSlide slideInfo
      | None \<Rightarrow> currentSlideIndex pm + 1)"
  "s_totalSlides (fst (getStatus D pm w)) =
     (case fst (realTimeSlideInfo D pm w) of
        Some slideInfo \<Rightarrow> si_totalSlides slideInfo
      | None \<Rightarrow> totalSlides pm)"
  "snd (snd (getStatus D pm w)) = snd (realTimeSlideInfo D pm w)"
  by (simp_all add: getStatus_def Let_def split: prod.splits)

text \<open>The poll of the PowerPoint driver catches whatever its scripts throw.\<close>

lemma PowerPointDriver_poll_returns:
  "\<exists>slideInfo. fst (PowerPointDriver_getCurrentSlideInfo P X w) = Inr slideInfo"
  by (auto simp: PowerPointDriver_getCurrentSlideInfo_def split: prod.splits sum.splits)

text \<open>
  C7 (as amended).  \<^verbatim>\<open>getStatus\<close> reports the slide position of a live poll exactly when
  the current driver is the PowerPoint driver object, a presentation is running, the
  object has a \<^verbatim>\<open>getCurrentSlideInfo\<close> method and the poll returns; the PowerPoint driver
  of the sources has the method, and its poll always returns.  In every other case the
  cached \<open>currentSlideIndex + 1\<close> and \<open>totalSlides\<close> are reported:
  \<^item> when the current driver is not the PowerPoint driver object (the Keynote driver,
    presenting or not, or none), when no presentation is running, or when the object has
    no such method; then the world is not touched either;
  \<^item> when the poll throws.
\<close>

theorem getStatus_slide_position:
  "(currentDriver pm = Some PowerPointRef \<and> isPresenting pm
      \<and> drv_getCurrentSlideInfo (D PowerPointRef) = Some poll \<and> fst (poll w) = Inr slideInfo
      \<longrightarrow> s_currentSlide (fst (getStatus D pm w)) = si_currentSlide slideInfo
        \<and> s_totalSlides (fst (getStatus D pm w)) = si_totalSlides slideInfo)
   \<and> (currentDriver pm \<noteq> Some PowerPointRef \<or> \<not> isPresenting pm
        \<or> drv_getCurrentSlideInfo (D PowerPointRef) = None
      \<longrightarrow> s_currentSlide (fst (getStatus D pm w)) = currentSlideIndex pm + 1
        \<and> s_totalSlides (fst (getStatus D pm w)) = totalSlides pm
        \<and> snd (snd (getStatus D pm w)) = w)
   \<and> (drv_getCurrentSlideInfo (D PowerPointRef) = Some poll \<and> fst (poll w) = Inl msg
      \<longrightarrow> s_currentSlide (fst (getStatus D pm w)) = currentSlideIndex pm + 1
        \<and> s_totalSlides (fst (getStatus D pm w)) = totalSlides pm)
   \<and> drv_getCurrentSlideInfo (applescript_drivers P X PowerPointRef)
        = Some (PowerPointDriver_getCurrentSlideInfo P X)
   \<and> (\<exists>info. fst (PowerPointDriver_getCurrentSlideInfo P X v) = Inr info)"
proof (intro conjI impI)
  assume a: "currentDriver pm = Some PowerPointRef \<and> isPresenting pm
      \<and> drv_getCurrentSlideInfo (D PowerPointRef) = Some poll \<and> fst (poll w) = Inr slideInfo"
  then have l: "fst (realTimeSlideInfo D pm w) = Some slideInfo"
    by (simp add: realTimeSlideInfo_live)
  show "s_currentSlide (fst (getStatus D pm w)) = si_currentSlide slideInfo"
    by (simp add: getStatus_slides l)
  show "s_totalSlides (fst (getStatus D pm w)) = si_totalSlides slideInfo"
    by (simp add: getStatus_slides l)
next
  assume "currentDriver pm \<noteq> Some PowerPointRef \<or> \<not> isPresenting pm
        \<or> drv_getCurrentSlideInfo (D PowerPointRef) = None"
  then have n: "realTimeSlideInfo D pm w = (None, w)"
    by (rule realTimeSlideInfo_idle)
  show "s_currentSlide (fst (getStatus D pm w)) = currentSlideIndex pm + 1"
    by (simp add: getStatus_slides n)
  show "s_totalSlides (fst (getStatus D pm w)) = totalSlides pm"
    by (simp add: getStatus_slides n)
  show "snd (snd (getStatus D pm w)) = w"
    by (simp add: getStatus_slides n)
next
  assume "drv_getCurrentSlideInfo (D PowerPointRef) = Some poll \<and> fst (poll w) = Inl msg"
  then have n: "fst (realTimeSlideInfo D pm w) = None"
    by (simp add: realTimeSlideInfo_throws)
  show "s_currentSlide (fst (getStatus D pm w)) = currentSlideIndex pm + 1"
    by (simp add: getStatus_slides n)
  show "s_totalSlides (fst (getStatus D pm w)) = totalSlides pm"
    by (simp add: getStatus_slides n)
next
  show "drv_getCurrentSlideInfo (applescript_drivers P X PowerPointRef)
        = Some (PowerPointDriver_getCurrentSlideInfo P X)"
    by (simp add: applescript_drivers_def PowerPointDriver_def)
next
  show "\<exists>info. fst (PowerPointDriver_getCurrentSlideInfo P X v) = Inr info"
    by (rule PowerPointDriver_poll_returns)
qed

text \<open>
  PowerPoint presenting, the show advanced by hand to slide 6 while the cache still holds
  slide 5: the status says 6 of 12.  Keynote presenting and advanced by hand: the status
  says the cached 3 of 10.  PowerPoint presenting with a poll that throws: the cached 5
  of 12.
\<close>

theorem getStatus_slide_position_witness:
  "(currentDriver (fst powerpoint_presenting) = Some PowerPointRef
      \<and> isPresenting (fst powerpoint_presenting)
      \<and> drv_getCurrentSlideInfo (demo_drivers PowerPointRef)
          = Some (PowerPointDriver_getCurrentSlideInfo demo_platform demo_osascript)
      \<and> fst (PowerPointDriver_getCurrentSlideInfo demo_platform demo_osascript
               (advanced_by_hand (snd powerpoint_presenting)))
          = Inr \<lparr>si_currentSlide = 6, si_totalSlides = 12\<rparr>
      \<and> currentSlideIndex (fst powerpoint_presenting) + 1 = 5
      \<and> s_currentSlide (fst (getStatus demo_drivers (fst powerpoint_presenting)
            (advanced_by_hand (snd powerpoint_presenting)))) = 6
      \<and> s_totalSlides (fst (getStatus demo_drivers (fst powerpoint_presenting)
            (advanced_by_hand (snd powerpoint_presenting)))) = 12)
   \<and> (currentDriver (fst keynote_presenting) = Some KeynoteRef
      \<and> s_currentSlide (fst (getStatus demo_drivers (fst keynote_presenting)
            (advanced_by_hand (snd keynote_presenting)))) = 3
      \<and> s_totalSlides (fst (getStatus demo_drivers (fst keynote_presenting)
            (advanced_by_hand (snd keynote_presenting)))) = 10
      \<and> snd (snd (getStatus demo_drivers (fst keynote_presenting)
            (advanced_by_hand (snd keynote_presenting))))
          = advanced_by_hand (snd keynote_presenting))
   \<and> (drv_getCurrentSlideInfo (flaky_drivers PowerPointRef)
          = Some (\<lambda>w. (Inl ''osascript timed out'', w))
      \<and> s_currentSlide (fst (getStatus flaky_drivers (fst powerpoint_presenting)
            (snd powerpoint_presenting))) = 5
      \<and> s_totalSlides (fst (getStatus flaky_drivers (fst powerpoint_presenting)
            (snd powerpoint_presenting))) = 12)"
proof -
  let ?pp = "fst powerpoint_presenting" and ?wp = "advanced_by_hand (snd powerpoint_presenting)"
  let ?kn = "fst keynote_presenting" and ?wk = "advanced_by_hand (snd keynote_presenting)"
  let ?poll = "PowerPointDriver_getCurrentSlideInfo demo_platform demo_osascript"
  let ?bad = "\<lambda>w :: nat automation. (Inl ''osascript timed out'' :: slide_info res, w)"
  have p1: "currentDriver ?pp = Some PowerPointRef" by code_simp
  have p2: "isPresenting ?pp" by code_simp
  have p3: "drv_getCurrentSlideInfo (demo_drivers PowerPointRef) = Some ?poll"
    by (simp add: demo_drivers_def applescript_drivers_def PowerPointDriver_def)
  have p4: "fst (?poll ?wp) = Inr \<lparr>si_currentSlide = 6, si_totalSlides = 12\<rparr>" by code_simp
  have p5: "currentSlideIndex ?pp + 1 = 5" by code_simp
  have p6: "totalSlides ?pp = 12" by code_simp
  have k1: "currentDriver ?kn = Some KeynoteRef" by code_simp
  have k2: "currentSlideIndex ?kn + 1 = 3" by code_simp
  have k3: "totalSlides ?kn = 10" by code_simp
  have b1: "drv_getCurrentSlideInfo (flaky_drivers PowerPointRef) = Some ?bad"
    by (simp add: flaky_drivers_def)
  have live: "s_currentSlide (fst (getStatus demo_drivers ?pp ?wp)) = 6
      \<and> s_totalSlides (fst (getStatus demo_drivers ?pp ?wp)) = 12"
    using getStatus_slide_position
            [of ?pp demo_drivers ?poll ?wp "\<lparr>si_currentSlide = 6, si_totalSlides = 12\<rparr>" _
                demo_platform demo_osascript demo_world]
          p1 p2 p3 p4
    by simp
  have cached: "s_currentSlide (fst (getStatus demo_drivers ?kn ?wk)) = 3
      \<and> s_totalSlides (fst (getStatus demo_drivers ?kn ?wk)) = 10
      \<and> snd (snd (getStatus demo_drivers ?kn ?wk)) = ?wk"
    using getStatus_slide_position
            [of ?kn demo_drivers _ ?wk _ _ demo_platform demo_osascript demo_world]
          k1 k2 k3
    by simp
  have thrown: "s_currentSlide (fst (getStatus flaky_drivers ?pp (snd powerpoint_presenting))) = 5
      \<and> s_totalSlides (fst (getStatus flaky_drivers ?pp (snd powerpoint_presenting))) = 12"
    using getStatus_slide_position
            [of ?pp flaky_drivers ?bad "snd powerpoint_presenting" _ "''osascript timed out''"
                demo_platform demo_osascript demo_world]
          b1 p5 p6
    by simp
  from p1 p2 p3 p4 p5 k1 b1 live cached thrown show ?thesis by simp
qed

text \<open>
  C7 as stated fails for the Keynote driver: it has a \<^verbatim>\<open>getCurrentSlideInfo\<close> method and
  the presentation is running, the live poll would answer slide 4 of 10, and the status
  reports the cached slide 3.
\<close>

theorem getStatus_slide_position_counterexample:
  "currentDriver (fst keynote_presenting) = Some KeynoteRef
   \<and> isPresenting (fst keynote_presenting)
   \<and> drv_getCurrentSlideInfo (demo_drivers KeynoteRef)
       = Some (KeynoteDriver_getCurrentSlideInfo demo_platform demo_osascript)
   \<and> fst (KeynoteDriver_getCurrentSlideInfo demo_platform demo_osascript
            (advanced_by_hand (snd keynote_presenting)))
       = Inr \<lparr>si_currentSlide = 4, si_totalSlides = 10\<rparr>
   \<and> currentSlideIndex (fst keynote_presenting) + 1 = 3
   \<and> s_currentSlide (fst (getStatus demo_drivers (fst keynote_presenting)
         (advanced_by_hand (snd keynote_presenting)))) = 3"
proof -
  have a: "currentDriver (fst keynote_presenting) = Some KeynoteRef" by code_simp
  have b: "isPresenting (fst keynote_presenting)" by code_simp
  have c: "drv_getCurrentSlideInfo (demo_drivers KeynoteRef)
       = Some (KeynoteDriver_getCurrentSlideInfo demo_platform demo_osascript)"
    by (simp add: demo_drivers_def applescript_drivers_def KeynoteDriver_def)
  have d: "fst (KeynoteDriver_getCurrentSlideInfo demo_platform demo_osascript
            (advanced_by_hand (snd keynote_presenting)))
       = Inr \<lparr>si_currentSlide = 4, si_totalSlides = 10\<rparr>" by code_simp
  have e: "currentSlideIndex (fst keynote_presenting) + 1 = 3" by code_simp
  have f: "s_currentSlide (fst (getStatus demo_drivers (fst keynote_presenting)
         (advanced_by_hand (snd keynote_presenting)))) = 3" by code_simp
  from a b c d e f show ?thesis by simp
qed

text \<open>
  C8.  \<^verbatim>\<open>getStatus\<close> leaves the manager, and with it the session and the registry, as
  it found them.  Called a second time right after the first, in a world in which the
  live poll has the same outcome as before the first call, it returns the same snapshot.
\<close>

theorem getStatus_idempotent:
  assumes "getStatus D pm w = (s1, pm1, w1)"
    and "getStatus D pm1 w1 = (s2, pm2, w2)"
    and "same_slide_info D w w1"
  shows "s2 = s1 \<and> pm1 = pm \<and> pm2 = pm"
proof -
  have m1: "pm1 = pm" using assms(1) getStatus_manager [of D pm w] by simp
  have m2: "pm2 = pm" using assms(2) getStatus_manager [of D pm1 w1] m1 by simp
  obtain l v where r: "realTimeSlideInfo D pm w = (l, v)"
    by (cases "realTimeSlideInfo D pm w")
  obtain l1 v1 where r1: "realTimeSlideInfo D pm w1 = (l1, v1)"
    by (cases "realTimeSlideInfo D pm w1")
  have "fst (realTimeSlideInfo D pm w1) = fst (realTimeSlideInfo D pm w)"
    using assms(3)
    by (auto simp: realTimeSlideInfo_def same_slide_info_def split: option.splits prod.splits sum.splits)
  then have "l1 = l" by (simp add: r r1)
  then have "fst (getStatus D pm w1) = fst (getStatus D pm w)"
    by (simp add: getStatus_def Let_def r r1)
  with assms(1,2) m1 m2 show ?thesis by simp
qed

text \<open>Two status requests in a row while PowerPoint is presenting.\<close>

theorem getStatus_idempotent_witness:
  "same_slide_info demo_drivers (snd powerpoint_presenting)
     (snd (snd (getStatus demo_drivers (fst powerpoint_presenting) (snd powerpoint_presenting))))
   \<and> fst (getStatus demo_drivers
            (fst (snd (getStatus demo_drivers (fst powerpoint_presenting) (snd powerpoint_presenting))))
            (snd (snd (getStatus demo_drivers (fst powerpoint_presenting) (snd powerpoint_presenting)))))
       = fst (getStatus demo_drivers (fst powerpoint_presenting) (snd powerpoint_presenting))
   \<and> fst (snd (getStatus demo_drivers (fst powerpoint_presenting) (snd powerpoint_presenting)))
       = fst powerpoint_presenting
   \<and> s_currentSlide (fst (getStatus demo_drivers (fst powerpoint_presenting) (snd powerpoint_presenting))) = 5"
proof -
  let ?g1 = "getStatus demo_drivers (fst powerpoint_presenting) (snd powerpoint_presenting)"
  let ?g2 = "getStatus demo_drivers (fst (snd ?g1)) (snd (snd ?g1))"
  have e1: "?g1 = (fst ?g1, fst (snd ?g1), snd (snd ?g1))" by simp
  have e2: "?g2 = (fst ?g2, fst (snd ?g2), snd (snd ?g2))" by simp
  have o: "same_slide_info demo_drivers (snd powerpoint_presenting) (snd (snd ?g1))" by code_simp
  have s: "s_currentSlide (fst ?g1) = 5" by code_simp
  from getStatus_idempotent [OF e1 e2 o]
  have a: "fst ?g2 = fst ?g1" and b: "fst (snd ?g1) = fst powerpoint_presenting"
    by blast+
  show ?thesis
    by (intro conjI) (rule o, rule a, rule b, rule s)
qed

section \<open>The authentication gate\<close>

text \<open>
  The gate for a message that has properties (any JSON value but \<^verbatim>\<open>null\<close>).  A
  registered client with an open socket that has not authenticated sends a message whose
  \<^verbatim>\<open>type\<close> is not \<^verbatim>\<open>auth\<close>.  \<^verbatim>\<open>handleMessage\<close> returns normally; the only thing it
  does, and so the only thing the socket's message handler does, is to send that client
  the error \<^verbatim>\<open>Authentication required\<close>.  The server state is unchanged (the
  presentation manager with its session and file registry; the client map, so the client
  stays registered, open and unauthenticated) and so is the world: no command was
  dispatched to the manager or a driver.
\<close>

lemma unauthenticated_command_rejected:
  assumes "map_of (clients srv) clientId = Some c"
    and "\<not> authenticated c"
    and "ws_readyState c = OPEN"
    and "msg \<noteq> JNull"
    and "json_get msg ''type'' \<noteq> Some (JStr ''auth'')"
  shows "handleMessage str F D now clientId msg srv w
           = (Inr (), srv, w, [Sent clientId (ErrorMsg ''Authentication required'')])
         \<and> onMessage str F D now clientId (Some msg) srv w
           = (srv, w, [Sent clientId (ErrorMsg ''Authentication required'')])"
  using assms by (simp add: onMessage_def handleMessage_def sendError_def send_def)

text \<open>
  The payload \<^verbatim>\<open>null\<close> parses, but it has no \<^verbatim>\<open>type\<close> to read: \<^verbatim>\<open>handleMessage\<close> throws
  before it reaches the authentication check, and the \<^verbatim>\<open>catch\<close> clause of the socket's
  message handler, written for a payload that does not parse, answers with
  \<^verbatim>\<open>Invalid JSON format\<close>.  Server state and world are unchanged here too.
\<close>

lemma null_payload_rejected:
  assumes "map_of (clients srv) clientId = Some c" and "ws_readyState c = OPEN"
  shows "fst (handleMessage str F D now clientId JNull srv w) = Inl ''Cannot read properties of null''
         \<and> onMessage str F D now clientId (Some JNull) srv w
           = (srv, w, [Sent clientId (ErrorMsg ''Invalid JSON format'')])"
  using assms by (simp add: onMessage_def handleMessage_def sendError_def send_def)

text \<open>
  C3 (the code at the failing input).  The client \<^verbatim>\<open>deck-2\<close> of the demo server is
  registered, its socket is open and it has not authenticated.  It sends the frame
  \<^verbatim>\<open>null\<close>, a message that is not an \<^verbatim>\<open>auth\<close> message.  \<^verbatim>\<open>handleMessage\<close> throws, and what
  the client is sent is the error \<^verbatim>\<open>Invalid JSON format\<close>, not
  \<^verbatim>\<open>Authentication required\<close>; server state and world are unchanged.
\<close>

theorem null_frame_before_auth:
  "map_of (clients demo_server) ''deck-2''
     = Some \<lparr>ws_readyState = OPEN, authenticated = False, lastPing = 0, ip = ''127.0.0.1''\<rparr>
   \<and> json_get JNull ''type'' \<noteq> Some (JStr ''auth'')
   \<and> fst (handleMessage demo_str demo_fs demo_drivers 0 ''deck-2'' JNull demo_server demo_world)
       = Inl ''Cannot read properties of null''
   \<and> onMessage demo_str demo_fs demo_drivers 0 ''deck-2'' (Some JNull) demo_server demo_world
       = (demo_server, demo_world, [Sent ''deck-2'' (ErrorMsg ''Invalid JSON format'')])
   \<and> ErrorMsg ''Invalid JSON format'' \<noteq> ErrorMsg ''Authentication required''"
proof -
  let ?c = "\<lparr>ws_readyState = OPEN, authenticated = False, lastPing = 0, ip = ''127.0.0.1''\<rparr>"
  have a: "map_of (clients demo_server) ''deck-2'' = Some ?c"
    by (simp add: demo_server_def)
  have b: "json_get JNull ''type'' \<noteq> Some (JStr ''auth'')" by (simp add: json_get_def)
  have c: "fst (handleMessage demo_str demo_fs demo_drivers 0 ''deck-2'' JNull demo_server demo_world)
       = Inl ''Cannot read properties of null''"
    by (simp add: handleMessage_def a)
  have d: "onMessage demo_str demo_fs demo_drivers 0 ''deck-2'' (Some JNull) demo_server demo_world
       = (demo_server, demo_world, [Sent ''deck-2'' (ErrorMsg ''Invalid JSON format'')])"
    by (simp add: onMessage_def handleMessage_def sendError_def send_def a)
  have e: "ErrorMsg ''Invalid JSON format'' \<noteq> ErrorMsg ''Authentication required''" by simp
  show ?thesis
    by (intro conjI) (rule a, rule b, rule c, rule d, rule e)
qed


section \<open>Token rotation\<close>

lemma disconnect_events:
  assumes "(cid, c) \<in> set cs" and "ws_readyState c = OPEN"
  shows "\<exists>xs ys.
           concat (map (\<lambda>(clientId, c).
                          if ws_readyState c = OPEN
                          then [Sent clientId (TokenChanged notice), Closed clientId] else []) cs)
             = xs @ Sent cid (TokenChanged notice) # Closed cid # ys"
proof -
  from assms(1) obtain as bs where "cs = as @ (cid, c) # bs"
    by (auto simp: in_set_conv_decomp)
  with assms(2) show ?thesis by auto
qed

lemma auth_wrong_token:
  assumes "map_of (clients s) cid = Some c" and "ws_readyState c = OPEN"
    and "json_get msg ''type'' = Some (JStr ''auth'')"
    and "json_get msg ''token'' = Some (JStr t)" and "t \<noteq> authToken s"
  shows "handleMessage str F D now cid msg s w
           = (Inr (), s, w, [Sent cid (AuthResult False ''Invalid authentication token'')])"
proof -
  from assms(3) have "msg \<noteq> JNull" by (auto simp: json_get_def)
  with assms show ?thesis by (simp add: handleMessage_def send_def)
qed

text \<open>
  C4.  The token is rotated: the user confirms the dialog (button 1), a new token
  different from the old one is installed and \<^verbatim>\<open>disconnectAllClients\<close> runs.  Then
  \<^item> every registered client whose socket is open, authenticated or not, is sent the
    message \<^verbatim>\<open>tokenChanged\<close> with the text \<^verbatim>\<open>Authentication token has been regenerated.
    Please reconnect with the new token.\<close> and its socket is closed right after;
  \<^item> no client remains registered, and the server's token is the new one;
  \<^item> a message that arrives afterwards from any of the former clients is ignored;
  \<^item> a client that connects afterwards and presents the old token gets
    \<^verbatim>\<open>authResult\<close> with \<^verbatim>\<open>success: false\<close> and stays unauthenticated.
\<close>

theorem token_rotation_disconnects:
  assumes "newToken \<noteq> authToken srv"
    and "regenerateAuthToken 1 newToken srv = (srv', evs)"
    and "json_get auth ''type'' = Some (JStr ''auth'')"
    and "json_get auth ''token'' = Some (JStr (authToken srv))"
  shows "(\<forall>(cid, c) \<in> set (clients srv). ws_readyState c = OPEN \<longrightarrow>
            (\<exists>xs ys. evs =
               xs @ Sent cid
                      (TokenChanged
                         ''Authentication token has been regenerated. Please reconnect with the new token.'')
                  # Closed cid # ys))
         \<and> clients srv' = [] \<and> authToken srv' = newToken
         \<and> handleMessage str F D now clientId msg srv' w = (Inr (), srv', w, [])
         \<and> handleMessage str F D now clientId auth (fst (onConnection clientId addr now srv')) w
             = (Inr (), fst (onConnection clientId addr now srv'), w,
                [Sent clientId (AuthResult False ''Invalid authentication token'')])
         \<and> map_of (clients (fst (onConnection clientId addr now srv'))) clientId
             = Some \<lparr>ws_readyState = OPEN, authenticated = False, lastPing = now, ip = addr\<rparr>"
proof -
  let ?notice = "''Authentication token has been regenerated. Please reconnect with the new token.''"
  from assms(2) have s: "srv' = srv\<lparr>authToken := newToken, clients := []\<rparr>"
    and e: "evs = concat (map (\<lambda>(clientId, c).
                          if ws_readyState c = OPEN
                          then [Sent clientId (TokenChanged ?notice), Closed clientId] else [])
                       (clients srv))"
    by (simp_all add: regenerateAuthToken_def disconnectAllClients_def)
  have 1: "\<forall>(cid, c) \<in> set (clients srv). ws_readyState c = OPEN \<longrightarrow>
            (\<exists>xs ys. evs = xs @ Sent cid (TokenChanged ?notice) # Closed cid # ys)"
    unfolding e using disconnect_events [where notice = ?notice] by fast
  have 2: "clients srv' = []" and 3: "authToken srv' = newToken"
    by (simp_all add: s)
  have 4: "handleMessage str F D now clientId msg srv' w = (Inr (), srv', w, [])"
    by (simp add: handleMessage_def 2)
  let ?s1 = "fst (onConnection clientId addr now srv')"
  let ?c = "\<lparr>ws_readyState = OPEN, authenticated = False, lastPing = now, ip = addr\<rparr>"
  have 6: "map_of (clients ?s1) clientId = Some ?c"
    by (simp add: onConnection_def Let_def 2)
  have t: "authToken srv \<noteq> authToken ?s1"
    using assms(1) by (simp add: onConnection_def Let_def 3)
  have 5: "handleMessage str F D now clientId auth ?s1 w
             = (Inr (), ?s1, w, [Sent clientId (AuthResult False ''Invalid authentication token'')])"
    by (rule auth_wrong_token [OF 6 _ assms(3,4) t]) simp
  from 1 2 3 4 5 6 show ?thesis by blast
qed

text \<open>
  The token of the demo server is replaced.  The open clients \<^verbatim>\<open>deck-1\<close> and \<^verbatim>\<open>deck-2\<close>
  are sent the \<^verbatim>\<open>tokenChanged\<close> message and closed, in this order, and nothing is sent
  to \<^verbatim>\<open>deck-3\<close>, whose socket had closed; \<^verbatim>\<open>deck-1\<close> reconnects with the old token and
  is refused.
\<close>

theorem token_rotation_disconnects_witness:
  "''z9y8x7w6'' \<noteq> authToken demo_server
   \<and> json_get (JObj [(''type'', JStr ''auth''), (''token'', JStr ''a1b2c3d4'')]) ''type''
       = Some (JStr ''auth'')
   \<and> json_get (JObj [(''type'', JStr ''auth''), (''token'', JStr ''a1b2c3d4'')]) ''token''
       = Some (JStr (authToken demo_server))
   \<and> snd (regenerateAuthToken 1 ''z9y8x7w6'' demo_server)
       = [Sent ''deck-1''
            (TokenChanged
               ''Authentication token has been regenerated. Please reconnect with the new token.''),
          Closed ''deck-1'',
          Sent ''deck-2''
            (TokenChanged
               ''Authentication token has been regenerated. Please reconnect with the new token.''),
          Closed ''deck-2'']
   \<and> clients (fst (regenerateAuthToken 1 ''z9y8x7w6'' demo_server)) = []
   \<and> authToken (fst (regenerateAuthToken 1 ''z9y8x7w6'' demo_server)) = ''z9y8x7w6''
   \<and> handleMessage demo_str demo_fs demo_drivers 0 ''deck-1''
        (JObj [(''type'', JStr ''auth''), (''token'', JStr ''a1b2c3d4'')])
        (fst (onConnection ''deck-1'' ''127.0.0.1'' 0 (fst (regenerateAuthToken 1 ''z9y8x7w6'' demo_server))))
        demo_world
       = (Inr (),
          fst (onConnection ''deck-1'' ''127.0.0.1'' 0 (fst (regenerateAuthToken 1 ''z9y8x7w6'' demo_server))),
          demo_world,
          [Sent ''deck-1'' (AuthResult False ''Invalid authentication token'')])"
proof -
  let ?auth = "JObj [(''type'', JStr ''auth''), (''token'', JStr ''a1b2c3d4'')]"
  let ?r = "regenerateAuthToken 1 ''z9y8x7w6'' demo_server"
  let ?notice = "''Authentication token has been regenerated. Please reconnect with the new token.''"
  have a: "''z9y8x7w6'' \<noteq> authToken demo_server" by (simp add: demo_server_def)
  have b: "?r = (fst ?r, snd ?r)" by simp
  have c: "json_get ?auth ''type'' = Some (JStr ''auth'')" by (simp add: json_get_def)
  have d: "json_get ?auth ''token'' = Some (JStr (authToken demo_server))"
    by (simp add: json_get_def demo_server_def)
  have e: "snd ?r = [Sent ''deck-1'' (TokenChanged ?notice), Closed ''deck-1'',
                     Sent ''deck-2'' (TokenChanged ?notice), Closed ''deck-2'']"
    by (simp add: regenerateAuthToken_def disconnectAllClients_def demo_server_def)
  from token_rotation_disconnects
         [OF a b c d, of demo_str demo_fs demo_drivers 0 "''deck-1''" JNull demo_world "''127.0.0.1''"]
  have f: "clients (fst ?r) = []" and g: "authToken (fst ?r) = ''z9y8x7w6''"
    and h: "handleMessage demo_str demo_fs demo_drivers 0 ''deck-1'' ?auth
              (fst (onConnection ''deck-1'' ''127.0.0.1'' 0 (fst ?r))) demo_world
            = (Inr (), fst (onConnection ''deck-1'' ''127.0.0.1'' 0 (fst ?r)), demo_world,
               [Sent ''deck-1'' (AuthResult False ''Invalid authentication token'')])"
    by blast+
  show ?thesis
    by (intro conjI) (rule a, rule c, rule d, rule e, rule f, rule g, rule h)
qed


section \<open>Scanning a folder\<close>

lemma set_insert_by: "set (insert_by cmp x ys) = insert x (set ys)"
  by (induction ys) auto

lemma set_sort_by: "set (sort_by cmp xs) = set xs"
  by (induction xs) (simp_all add: sort_by_def set_insert_by)

lemma length_insert_by: "length (insert_by cmp x ys) = Suc (length ys)"
  by (induction ys) auto

lemma length_sort_by: "length (sort_by cmp xs) = length xs"
  by (induction xs) (simp_all add: sort_by_def length_insert_by)

lemma distinct_map_insert_by:
  "distinct (map f (insert_by cmp x ys)) \<longleftrightarrow> f x \<notin> f ` set ys \<and> distinct (map f ys)"
  by (induction ys) (auto simp: set_insert_by)

lemma distinct_map_sort_by: "distinct (map f (sort_by cmp xs)) \<longleftrightarrow> distinct (map f xs)"
proof (induction xs)
  case Nil
  show ?case by (simp add: sort_by_def)
next
  case (Cons x xs)
  have "sort_by cmp (x # xs) = insert_by cmp x (sort_by cmp xs)"
    by (simp add: sort_by_def)
  then show ?case
    using Cons.IH by (simp add: distinct_map_insert_by set_sort_by)
qed

text \<open>
  Inserting into a sorted list keeps it sorted when the comparator is total and
  transitive on the elements involved.
\<close>

lemma sorted_insert_by:
  assumes tot: "\<forall>a \<in> S. \<forall>b \<in> S. cmp a b \<le> 0 \<or> cmp b a \<le> 0"
    and trans: "\<forall>a \<in> S. \<forall>b \<in> S. \<forall>c \<in> S. cmp a b \<le> 0 \<and> cmp b c \<le> 0 \<longrightarrow> cmp a c \<le> 0"
    and x: "x \<in> S"
  shows "set ys \<subseteq> S \<Longrightarrow> sorted_wrt (\<lambda>a b. cmp a b \<le> 0) ys \<Longrightarrow>
         sorted_wrt (\<lambda>a b. cmp a b \<le> 0) (insert_by cmp x ys)"
proof (induction ys)
  case Nil
  show ?case by simp
next
  case (Cons y ys)
  from Cons.prems have y: "y \<in> S" and ys: "set ys \<subseteq> S"
    and sy: "\<forall>z \<in> set ys. cmp y z \<le> 0" and s: "sorted_wrt (\<lambda>a b. cmp a b \<le> 0) ys"
    by auto
  show ?case
  proof (cases "cmp x y \<le> 0")
    case True
    have "\<forall>z \<in> set ys. cmp x z \<le> 0"
    proof
      fix z assume z: "z \<in> set ys"
      with sy have "cmp y z \<le> 0" by simp
      with True trans x y ys z show "cmp x z \<le> 0" by blast
    qed
    with True Cons.prems show ?thesis by simp
  next
    case False
    with tot x y have yx: "cmp y x \<le> 0" by blast
    from Cons.IH [OF ys s] have "sorted_wrt (\<lambda>a b. cmp a b \<le> 0) (insert_by cmp x ys)" .
    with False yx sy show ?thesis by (simp add: set_insert_by)
  qed
qed

lemma sorted_sort_by:
  assumes tot: "\<forall>a \<in> S. \<forall>b \<in> S. cmp a b \<le> 0 \<or> cmp b a \<le> 0"
    and trans: "\<forall>a \<in> S. \<forall>b \<in> S. \<forall>c \<in> S. cmp a b \<le> 0 \<and> cmp b c \<le> 0 \<longrightarrow> cmp a c \<le> 0"
  shows "set xs \<subseteq> S \<Longrightarrow> sorted_wrt (\<lambda>a b. cmp a b \<le> 0) (sort_by cmp xs)"
proof (induction xs)
  case Nil
  show ?case by (simp add: sort_by_def)
next
  case (Cons x xs)
  have e: "sort_by cmp (x # xs) = insert_by cmp x (sort_by cmp xs)"
    by (simp add: sort_by_def)
  from Cons.prems have x: "x \<in> S" and xs: "set xs \<subseteq> S" by auto
  show ?case
    unfolding e
    by (rule sorted_insert_by [OF tot trans x]) (simp_all add: set_sort_by xs Cons.IH)
qed

lemma scan_entries_names:
  "scan_entries P F exts folder entries acc = Some r \<Longrightarrow>
   map f_name r =
     map f_name acc @
     map d_name (filter (\<lambda>e. d_isFile e \<and> toLowerCase P (extname P (d_name e)) \<in> set exts) entries)"
  by (induction entries arbitrary: acc) (auto simp: Let_def split: if_splits option.splits)

lemma scan_entries_fields:
  "scan_entries P F exts folder entries acc = Some r \<Longrightarrow> f \<in> set r \<Longrightarrow>
   f \<in> set acc \<or>
   (f_path f = path_join P folder (f_name f)
    \<and> f_extension f = toLowerCase P (extname P (f_name f))
    \<and> f_extension f \<in> set exts
    \<and> f_type f = getFileType (f_extension f))"
proof (induction entries arbitrary: acc)
  case Nil
  then show ?case by simp
next
  case (Cons e entries)
  show ?case
  proof (cases "d_isFile e \<and> toLowerCase P (extname P (d_name e)) \<in> set exts")
    case False
    with Cons.prems have "scan_entries P F exts folder entries acc = Some r"
      by (auto simp: Let_def split: if_splits)
    from Cons.IH [OF this Cons.prems(2)] show ?thesis .
  next
    case True
    show ?thesis
    proof (cases "stat F (path_join P folder (d_name e))")
      case None
      with True Cons.prems(1) show ?thesis by (simp add: Let_def)
    next
      case (Some st)
      with True Cons.prems(1) have
        "scan_entries P F exts folder entries
           (acc @ [\<lparr>f_name = d_name e, f_path = path_join P folder (d_name e),
                    f_extension = toLowerCase P (extname P (d_name e)),
                    f_size = st_size st, f_modified = st_mtime st,
                    f_type = getFileType (toLowerCase P (extname P (d_name e)))\<rparr>]) = Some r"
        by (simp add: Let_def)
      from Cons.IH [OF this Cons.prems(2)] True show ?thesis by auto
    qed
  qed
qed

lemma scan_entries_succeeds:
  "\<forall>e \<in> set entries. d_isFile e \<and> toLowerCase P (extname P (d_name e)) \<in> set exts
      \<longrightarrow> stat F (path_join P folder (d_name e)) \<noteq> None \<Longrightarrow>
   \<exists>r. scan_entries P F exts folder entries acc = Some r"
  by (induction entries arbitrary: acc) (auto simp: Let_def)

lemma getFileType_supported:
  "ext \<in> set [''.key'', ''.pptx'', ''.ppt''] \<Longrightarrow>
   getFileType ext = (if ext = ''.key'' then ''keynote'' else ''powerpoint'')"
  by (auto simp: getFileType_def)

text \<open>
  C6.  \<^verbatim>\<open>setFolder\<close> on a readable folder: the directory listing succeeds, and so does
  \<^verbatim>\<open>fs.stat\<close> on every entry the scan keeps.  The entries of a directory have distinct
  names, joining the folder with distinct names gives distinct paths, and
  \<^verbatim>\<open>localeCompare\<close> is total and transitive on the names.  Then the registry list holds
  exactly the names of the entries that are regular files with a supported (lower-cased)
  extension, one file per such entry; every file carries the joined path, its extension
  and the application type of the extension (\<^verbatim>\<open>keynote\<close> for \<^verbatim>\<open>.key\<close>, else
  \<^verbatim>\<open>powerpoint\<close>); the list is sorted by name under \<^verbatim>\<open>localeCompare\<close>; no two files
  share a path; and no file is selected.
\<close>

theorem setFolder_lists_presentations:
  assumes sup: "supportedExtensions fm = [''.key'', ''.pptx'', ''.ppt'']"
    and folder: "folder \<noteq> []"
    and dir: "readdir F folder = Some entries"
    and stats: "\<forall>e \<in> set entries.
                  d_isFile e \<and> toLowerCase P (extname P (d_name e)) \<in> set (supportedExtensions fm)
                  \<longrightarrow> stat F (path_join P folder (d_name e)) \<noteq> None"
    and names: "distinct (map d_name entries)"
    and join: "inj_on (path_join P folder) (d_name ` set entries)"
    and tot: "\<forall>a \<in> d_name ` set entries. \<forall>b \<in> d_name ` set entries.
                localeCompare P a b \<le> 0 \<or> localeCompare P b a \<le> 0"
    and trans: "\<forall>a \<in> d_name ` set entries. \<forall>b \<in> d_name ` set entries. \<forall>c \<in> d_name ` set entries.
                localeCompare P a b \<le> 0 \<and> localeCompare P b c \<le> 0 \<longrightarrow> localeCompare P a c \<le> 0"
  shows "set (map f_name (getFiles (setFolder P F folder fm)))
           = d_name ` {e \<in> set entries. d_isFile e
                          \<and> toLowerCase P (extname P (d_name e)) \<in> set (supportedExtensions fm)}
         \<and> length (getFiles (setFolder P F folder fm))
           = length (filter (\<lambda>e. d_isFile e
                          \<and> toLowerCase P (extname P (d_name e)) \<in> set (supportedExtensions fm)) entries)
         \<and> (\<forall>f \<in> set (getFiles (setFolder P F folder fm)).
               f_path f = path_join P folder (f_name f)
               \<and> f_extension f = toLowerCase P (extname P (f_name f))
               \<and> f_extension f \<in> set (supportedExtensions fm)
               \<and> f_type f = (if f_extension f = ''.key'' then ''keynote'' else ''powerpoint''))
         \<and> sorted_wrt (\<lambda>a b. localeCompare P (f_name a) (f_name b) \<le> 0)
             (getFiles (setFolder P F folder fm))
         \<and> distinct (map f_path (getFiles (setFolder P F folder fm)))
         \<and> currentFileIndex (setFolder P F folder fm) = - 1"
proof -
  let ?exts = "supportedExtensions fm"
  let ?match = "\<lambda>e. d_isFile e \<and> toLowerCase P (extname P (d_name e)) \<in> set ?exts"
  let ?cmp = "\<lambda>a b. localeCompare P (f_name a) (f_name b)"
  let ?N = "d_name ` set entries"
  from scan_entries_succeeds [OF stats] obtain r where
    r: "scan_entries P F ?exts folder entries [] = Some r" by blast
  have files: "getFiles (setFolder P F folder fm) = sort_by ?cmp r"
    using folder dir r
    by (simp add: getFiles_def setFolder_def setupWatcher_def scanFiles_def folder_set_def)
  have cursor: "currentFileIndex (setFolder P F folder fm) = - 1"
    using folder dir r
    by (simp add: setFolder_def setupWatcher_def scanFiles_def folder_set_def)
  have rn: "map f_name r = map d_name (filter ?match entries)"
    using scan_entries_names [OF r] by simp
  have rf: "\<forall>f \<in> set r. f_path f = path_join P folder (f_name f)
               \<and> f_extension f = toLowerCase P (extname P (f_name f))
               \<and> f_extension f \<in> set ?exts
               \<and> f_type f = getFileType (f_extension f)"
  proof
    fix f assume "f \<in> set r"
    have "f \<notin> set []" by simp
    with scan_entries_fields [OF r \<open>f \<in> set r\<close>]
    show "f_path f = path_join P folder (f_name f)
               \<and> f_extension f = toLowerCase P (extname P (f_name f))
               \<and> f_extension f \<in> set ?exts
               \<and> f_type f = getFileType (f_extension f)" by blast
  qed
  have 1: "set (map f_name (sort_by ?cmp r)) = d_name ` {e \<in> set entries. ?match e}"
  proof -
    have "set (map f_name (sort_by ?cmp r)) = set (map f_name r)"
      by (simp add: set_sort_by)
    also have "\<dots> = d_name ` {e \<in> set entries. ?match e}"
      by (simp only: rn) auto
    finally show ?thesis .
  qed
  have 2: "length (sort_by ?cmp r) = length (filter ?match entries)"
  proof -
    have "length (sort_by ?cmp r) = length (map f_name r)"
      by (simp add: length_sort_by)
    then show ?thesis by (simp only: rn length_map)
  qed
  have 3: "\<forall>f \<in> set (sort_by ?cmp r).
               f_path f = path_join P folder (f_name f)
               \<and> f_extension f = toLowerCase P (extname P (f_name f))
               \<and> f_extension f \<in> set ?exts
               \<and> f_type f = (if f_extension f = ''.key'' then ''keynote'' else ''powerpoint'')"
  proof
    fix f assume "f \<in> set (sort_by ?cmp r)"
    then have f: "f \<in> set r" by (simp add: set_sort_by)
    with rf have g: "f_path f = path_join P folder (f_name f)
               \<and> f_extension f = toLowerCase P (extname P (f_name f))
               \<and> f_extension f \<in> set ?exts
               \<and> f_type f = getFileType (f_extension f)" by blast
    then have g1: "f_path f = path_join P folder (f_name f)"
      and g2: "f_extension f = toLowerCase P (extname P (f_name f))"
      and g3: "f_extension f \<in> set ?exts"
      and g4: "f_type f = getFileType (f_extension f)"
      by blast+
    from g3 have "f_extension f \<in> set [''.key'', ''.pptx'', ''.ppt'']" by (simp only: sup)
    then have g5: "getFileType (f_extension f)
                     = (if f_extension f = ''.key'' then ''keynote'' else ''powerpoint'')"
      by (rule getFileType_supported)
    show "f_path f = path_join P folder (f_name f)
               \<and> f_extension f = toLowerCase P (extname P (f_name f))
               \<and> f_extension f \<in> set ?exts
               \<and> f_type f = (if f_extension f = ''.key'' then ''keynote'' else ''powerpoint'')"
      by (intro conjI) (rule g1, rule g2, rule g3, simp only: g4 g5)
  qed
  have inN: "f_name ` set r \<subseteq> ?N"
  proof -
    have "f_name ` set r = set (map f_name r)" by simp
    also have "\<dots> \<subseteq> ?N" by (simp only: rn) auto
    finally show ?thesis .
  qed
  have 4: "sorted_wrt (\<lambda>a b. ?cmp a b \<le> 0) (sort_by ?cmp r)"
  proof (rule sorted_sort_by [where S = "{f. f_name f \<in> ?N}"])
    show "\<forall>a \<in> {f. f_name f \<in> ?N}. \<forall>b \<in> {f. f_name f \<in> ?N}. ?cmp a b \<le> 0 \<or> ?cmp b a \<le> 0"
      using tot by blast
    show "\<forall>a \<in> {f. f_name f \<in> ?N}. \<forall>b \<in> {f. f_name f \<in> ?N}. \<forall>c \<in> {f. f_name f \<in> ?N}.
            ?cmp a b \<le> 0 \<and> ?cmp b c \<le> 0 \<longrightarrow> ?cmp a c \<le> 0"
      using trans by blast
    show "set r \<subseteq> {f. f_name f \<in> ?N}" using inN by blast
  qed
  have 5: "distinct (map f_path (sort_by ?cmp r))"
  proof -
    have dn: "distinct (map f_name r)"
      by (simp only: rn) (rule distinct_map_filter [OF names])
    have e: "map f_path r = map (path_join P folder) (map f_name r)"
      using rf by simp
    have d: "distinct (map (path_join P folder) (map f_name r))"
    proof (subst distinct_map, intro conjI)
      show "distinct (map f_name r)" by (rule dn)
      show "inj_on (path_join P folder) (set (map f_name r))"
        by (rule inj_on_subset [OF join]) (use inN in simp)
    qed
    have "distinct (map f_path r)" by (simp only: e d)
    then show ?thesis by (simp add: distinct_map_sort_by)
  qed
  from 1 2 3 4 5 cursor show ?thesis by (simp only: files) 
qed

text \<open>
  The demo folder lists \<^verbatim>\<open>c.ppt\<close>, \<^verbatim>\<open>notes.txt\<close>, \<^verbatim>\<open>a.key\<close>, a directory \<^verbatim>\<open>old.key\<close> and
  \<^verbatim>\<open>b.pptx\<close>.  The registry holds \<^verbatim>\<open>a.key\<close>, \<^verbatim>\<open>b.pptx\<close>, \<^verbatim>\<open>c.ppt\<close> in this order, with
  the types \<^verbatim>\<open>keynote\<close>, \<^verbatim>\<open>powerpoint\<close>, \<^verbatim>\<open>powerpoint\<close>.
\<close>

theorem setFolder_lists_presentations_witness:
  "readdir demo_fs ''/deck'' = Some demo_entries
   \<and> distinct (map d_name demo_entries)
   \<and> map f_name (getFiles (setFolder demo_platform demo_fs ''/deck'' FileManager_new))
       = [''a.key'', ''b.pptx'', ''c.ppt'']
   \<and> map f_type (getFiles (setFolder demo_platform demo_fs ''/deck'' FileManager_new))
       = [''keynote'', ''powerpoint'', ''powerpoint'']
   \<and> map f_path (getFiles (setFolder demo_platform demo_fs ''/deck'' FileManager_new))
       = [''/deck/a.key'', ''/deck/b.pptx'', ''/deck/c.ppt'']
   \<and> set (map f_name (getFiles (setFolder demo_platform demo_fs ''/deck'' FileManager_new)))
       = d_name ` {e \<in> set demo_entries. d_isFile e
                      \<and> toLowerCase demo_platform (extname demo_platform (d_name e))
                          \<in> set (supportedExtensions FileManager_new)}
   \<and> sorted_wrt (\<lambda>a b. localeCompare demo_platform (f_name a) (f_name b) \<le> 0)
       (getFiles (setFolder demo_platform demo_fs ''/deck'' FileManager_new))
   \<and> distinct (map f_path (getFiles (setFolder demo_platform demo_fs ''/deck'' FileManager_new)))
   \<and> currentFileIndex (setFolder demo_platform demo_fs ''/deck'' FileManager_new) = - 1"
proof -
  let ?fm = "setFolder demo_platform demo_fs ''/deck'' FileManager_new"
  have sup: "supportedExtensions FileManager_new = [''.key'', ''.pptx'', ''.ppt'']"
    by (simp add: FileManager_new_def)
  have folder: "''/deck'' \<noteq> []" by simp
  have dir: "readdir demo_fs ''/deck'' = Some demo_entries" by (simp add: demo_fs_def)
  have stats: "\<forall>e \<in> set demo_entries.
                  d_isFile e \<and> toLowerCase demo_platform (extname demo_platform (d_name e))
                     \<in> set (supportedExtensions FileManager_new)
                  \<longrightarrow> stat demo_fs (path_join demo_platform ''/deck'' (d_name e)) \<noteq> None"
    by code_simp
  have names: "distinct (map d_name demo_entries)" by code_simp
  have join: "inj_on (path_join demo_platform ''/deck'') (d_name ` set demo_entries)"
    by (simp add: demo_platform_def inj_on_def)
  have tot: "\<forall>a \<in> d_name ` set demo_entries. \<forall>b \<in> d_name ` set demo_entries.
                localeCompare demo_platform a b \<le> 0 \<or> localeCompare demo_platform b a \<le> 0"
    by code_simp
  have trans: "\<forall>a \<in> d_name ` set demo_entries. \<forall>b \<in> d_name ` set demo_entries.
                \<forall>c \<in> d_name ` set demo_entries.
                localeCompare demo_platform a b \<le> 0 \<and> localeCompare demo_platform b c \<le> 0
                \<longrightarrow> localeCompare demo_platform a c \<le> 0"
    by code_simp
  have n: "map f_name (getFiles ?fm) = [''a.key'', ''b.pptx'', ''c.ppt'']" by code_simp
  have t: "map f_type (getFiles ?fm) = [''keynote'', ''powerpoint'', ''powerpoint'']" by code_simp
  have p: "map f_path (getFiles ?fm) = [''/deck/a.key'', ''/deck/b.pptx'', ''/deck/c.ppt'']"
    by code_simp
  from setFolder_lists_presentations [OF sup folder dir stats names join tot trans]
  have "set (map f_name (getFiles ?fm))
       = d_name ` {e \<in> set demo_entries. d_isFile e
                      \<and> toLowerCase demo_platform (extname demo_platform (d_name e))
                          \<in> set (supportedExtensions FileManager_new)}"
    and "sorted_wrt (\<lambda>a b. localeCompare demo_platform (f_name a) (f_name b) \<le> 0) (getFiles ?fm)"
    and "distinct (map f_path (getFiles ?fm))"
    and "currentFileIndex ?fm = - 1"
    by blast+
  with dir names n t p show ?thesis by blast
qed

end
